theory Spec2Isabelle
  imports Main
begin

section \<open>Common data: paths, errors, lines of text\<close>

text \<open>
  A path is the text of a \<^verbatim>\<open>pathlib.Path\<close>. Every path of a session lies under the git
  root, and the model identifies \<^verbatim>\<open>git_root / p\<close> with \<^verbatim>\<open>p\<close>: the keys of
  \<^verbatim>\<open>code_context.files\<close> (absolute) and of \<^verbatim>\<open>file_lines\<close> (relative to the git root)
  are the same values here. Directories are not modelled: the disk is a flat table of files,
  and the text of a file is what Python's text mode reads and writes, without newline
  translation.
\<close>

type_synonym path = string

text \<open>The four f-string messages of \<^verbatim>\<open>MentatError\<close> in \<^verbatim>\<open>write_changes_to_files\<close>.\<close>

datatype mentat_reason =
    CreateExisting path          \<comment> \<open>Model attempted to create file .. which already exists\<close>
  | EditNonExistent path         \<comment> \<open>Attempted to edit non-existent file ..\<close>
  | EditNotInContext path        \<comment> \<open>Attempted to edit file .. not in context\<close>
  | RenameToExisting path path   \<comment> \<open>Attempted to rename file .. to existing file ..\<close>

datatype error =
    MentatError mentat_reason
  | ValueError string
  | KeyError path
  | TypeError
  | FileNotFoundError path
  | OtherError string

definition NL :: char where
  "NL = CHR 0x0A"

text \<open>\<^verbatim>\<open>s.split("\n")\<close>: never empty, the empty text gives one empty line.\<close>

fun split_lines :: "string \<Rightarrow> string list" where
  "split_lines [] = [[]]"
| "split_lines (c # cs) =
     (if c = NL then [] # split_lines cs
      else (case split_lines cs of [] \<Rightarrow> [[c]] | l # ls \<Rightarrow> (c # l) # ls))"

text \<open>\<^verbatim>\<open>"\n".join(lines)\<close>.\<close>

fun join_lines :: "string list \<Rightarrow> string" where
  "join_lines [] = []"
| "join_lines [l] = l"
| "join_lines (l # m # ls) = l @ NL # join_lines (m # ls)"

section \<open>Configuration lookup (config_manager.py)\<close>

text \<open>
  The three dictionaries a \<^verbatim>\<open>ConfigManager\<close> holds after \<^verbatim>\<open>__init__\<close>; the values are
  whatever JSON the files held.
\<close>

record 'v config_manager =
  user_config :: "string \<rightharpoonup> 'v"
  project_config :: "string \<rightharpoonup> 'v"
  default_config :: "string \<rightharpoonup> 'v"

text \<open>
  \<^verbatim>\<open>ConfigManager._get_key\<close>: \<^verbatim>\<open>key in d\<close> is \<open>key \<in> dom d\<close> and \<^verbatim>\<open>d[key]\<close> is read only
  after that test. The error carries the f-string's fixed part and the key.
\<close>

definition get_key :: "'v config_manager \<Rightarrow> string \<Rightarrow> error + 'v" where
  "get_key c key =
     (if key \<in> dom (project_config c) then Inr (the (project_config c key))
      else if key \<in> dom (user_config c) then Inr (the (user_config c key))
      else if key \<in> dom (default_config c) then Inr (the (default_config c key))
      else Inl (ValueError (''No value for config key '' @ key @ '' found'')))"

text \<open>The dictionaries of \<^verbatim>\<open>test_config_priority\<close> in tests/config_test.py.\<close>

definition test_config :: "string config_manager" where
  "test_config =
     \<lparr>user_config = [''project-first'' \<mapsto> ''I will not be used'', ''user-second'' \<mapsto> ''user''],
      project_config = [''project-first'' \<mapsto> ''project''],
      default_config = [''project-first'' \<mapsto> ''I also am not used'',
                        ''user-second'' \<mapsto> ''Neither am I'',
                        ''default-last'' \<mapsto> ''default'']\<rparr>"

section \<open>The edit model (parsers/file_edit.py, as its callers use it)\<close>

text \<open>
  \<^verbatim>\<open>Replacement(starting_line, ending_line, new_lines)\<close>, built positionally by the block
  parser. The ending line is optional because the parser passes the header's
  \<^verbatim>\<open>end-line\<close> on as it is, and that is \<^verbatim>\<open>None\<close> when the header has no such key.
\<close>

datatype replacement = Replacement int "int option" "string list"

record file_edit =
  file_path :: path
  replacements :: "replacement list"
  is_creation :: bool
  is_deletion :: bool
  rename_file_path :: "path option"

text \<open>
  A Python slice \<^verbatim>\<open>xs[lo:hi]\<close> with step 1: a negative bound counts from the end, every
  bound is clamped to the list, and \<^verbatim>\<open>None\<close> is the respective end of the list.
\<close>

definition py_bound :: "nat \<Rightarrow> int \<Rightarrow> nat" where
  "py_bound n i = (if i < 0 then nat (max (i + int n) 0) else min (nat i) n)"

definition py_slice :: "'a list \<Rightarrow> int option \<Rightarrow> int option \<Rightarrow> 'a list" where
  "py_slice xs lo hi =
     (let n = length xs;
          l = (case lo of None \<Rightarrow> 0 | Some i \<Rightarrow> py_bound n i);
          h = (case hi of None \<Rightarrow> n | Some i \<Rightarrow> py_bound n i)
      in take (h - l) (drop l xs))"

section \<open>The file mutation engine (code_file_manager.py)\<close>

text \<open>
  What the session stream receives: the five messages of \<^verbatim>\<open>write_changes_to_files\<close>,
  each with the path relative to the git root, and every call of \<^verbatim>\<open>ask_yes_no\<close> with its
  \<^verbatim>\<open>default_yes\<close> argument.
\<close>

datatype message =
    AreYouSureDelete path   \<comment> \<open>Are you sure you want to delete ..?\<close>
  | Deleting path           \<comment> \<open>Deleting ..\<close>
  | NotDeleting path        \<comment> \<open>Not deleting ..\<close>
  | FileChanged path        \<comment> \<open>File .. changed while generating; current file changes will be erased. Continue?\<close>
  | NotApplying path        \<comment> \<open>Not applying changes to file ..\<close>

datatype event = Send message | AskYesNo bool

text \<open>
  Everything the engine reads and writes: the files on disk with their text, the keys of
  \<^verbatim>\<open>code_context.files\<close> (the tracked set), the snapshots \<^verbatim>\<open>self.file_lines\<close> taken by
  \<^verbatim>\<open>read_all_file_lines\<close> before generation, the session stream, and the number of
  questions the user has been asked so far.
\<close>

record state =
  disk :: "path \<rightharpoonup> string"
  files :: "path set"
  file_lines :: "path \<rightharpoonup> string list"
  out :: "event list"
  asked :: nat

definition send :: "message \<Rightarrow> state \<Rightarrow> state" where
  "send m s = s\<lparr>out := out s @ [Send m]\<rparr>"

text \<open>
  Modelled from the spec: \<^verbatim>\<open>ask_yes_no\<close> of session_input.py is missing; the confirmation
  capability presents a yes/no question with a stated default and returns the user's
  boolean answer. The user is a sequence of answers, \<open>user k\<close> being the answer to the
  question asked after \<open>k\<close> earlier ones.
\<close>

definition ask_yes_no :: "(nat \<Rightarrow> bool) \<Rightarrow> bool \<Rightarrow> state \<Rightarrow> bool \<times> state" where
  "ask_yes_no user default_yes s =
     (user (asked s), s\<lparr>out := out s @ [AskYesNo default_yes], asked := Suc (asked s)\<rparr>)"

text \<open>\<^verbatim>\<open>read_file\<close>: the text of the file, split at newlines; opening a missing file raises.\<close>

definition read_file :: "path \<Rightarrow> state \<Rightarrow> error + string list" where
  "read_file p s =
     (case disk s p of
        None \<Rightarrow> Inl (FileNotFoundError p)
      | Some content \<Rightarrow> Inr (split_lines content))"

text \<open>\<^verbatim>\<open>_add_file\<close>: the path is registered as tracked, then an empty file is written.\<close>

definition add_file :: "path \<Rightarrow> state \<Rightarrow> state" where
  "add_file p s = s\<lparr>files := insert p (files s), disk := (disk s)(p \<mapsto> [])\<rparr>"

text \<open>
  \<^verbatim>\<open>_delete_file\<close>: the path leaves the tracked set if it is there, then the file is
  unlinked; \<^verbatim>\<open>unlink\<close> raises on a missing file, after the tracked set has changed.
\<close>

definition delete_file :: "path \<Rightarrow> state \<Rightarrow> (error + unit) \<times> state" where
  "delete_file p s =
     (let s1 = s\<lparr>files := files s - {p}\<rparr>
      in if p \<in> dom (disk s1) then (Inr (), s1\<lparr>disk := (disk s1)(p := None)\<rparr>)
         else (Inl (FileNotFoundError p), s1))"

text \<open>
  The body of the loop of \<^verbatim>\<open>write_changes_to_files\<close>, block by block. An exception
  leaves the state as it is when it is raised, so every block returns the state too.

  First block: the existence and scope checks, and the creation of a new file.
\<close>

definition check_target :: "file_edit \<Rightarrow> state \<Rightarrow> (error + unit) \<times> state" where
  "check_target e s =
     (if is_creation e then
        if file_path e \<in> dom (disk s)
        then (Inl (MentatError (CreateExisting (file_path e))), s)
        else (Inr (), add_file (file_path e) s)
      else
        if file_path e \<notin> dom (disk s)
        then (Inl (MentatError (EditNonExistent (file_path e))), s)
        else if file_path e \<notin> files s
        then (Inl (MentatError (EditNotInContext (file_path e))), s)
        else (Inr (), s))"

text \<open>
  Second block: the deletion. The result is \<open>True\<close> when the loop goes on with the next
  edit (\<^verbatim>\<open>continue\<close>), which only the accepted deletion does.
\<close>

definition confirm_deletion ::
  "(nat \<Rightarrow> bool) \<Rightarrow> file_edit \<Rightarrow> state \<Rightarrow> (error + bool) \<times> state" where
  "confirm_deletion user e s =
     (if is_deletion e then
        (case ask_yes_no user False (send (AreYouSureDelete (file_path e)) s) of
           (answer, s1) \<Rightarrow>
             if answer then
               (case delete_file (file_path e) (send (Deleting (file_path e)) s1) of
                  (Inl err, s2) \<Rightarrow> (Inl err, s2)
                | (Inr _, s2) \<Rightarrow> (Inr True, s2))
             else (Inr False, send (NotDeleting (file_path e)) s1))
      else (Inr False, s))"

text \<open>
  Third block: the stored lines of the edit, and for an edit of an existing file the
  comparison of the snapshot with the file as it is now. Whatever the user answers, the
  block ends in the same way: the only statement under the declined confirmation is the
  message.
\<close>

definition conflict_check ::
  "(nat \<Rightarrow> bool) \<Rightarrow> file_edit \<Rightarrow> state \<Rightarrow> (error + string list) \<times> state" where
  "conflict_check user e s =
     (if \<not> is_creation e then
        (case file_lines s (file_path e) of
           None \<Rightarrow> (Inl (KeyError (file_path e)), s)
         | Some stored_lines \<Rightarrow>
             (case read_file (file_path e) s of
                Inl err \<Rightarrow> (Inl err, s)
              | Inr current \<Rightarrow>
                  if stored_lines \<noteq> current then
                    (case ask_yes_no user False (send (FileChanged (file_path e)) s) of
                       (answer, s1) \<Rightarrow>
                         if \<not> answer then (Inr stored_lines, send (NotApplying (file_path e)) s1)
                         else (Inr stored_lines, s1))
                  else (Inr stored_lines, s)))
      else (Inr [], s))"

text \<open>
  Fourth block: the rename. The edit comes back with \<^verbatim>\<open>file_path\<close> set to the
  destination.
\<close>

definition rename_step :: "file_edit \<Rightarrow> state \<Rightarrow> (error + file_edit) \<times> state" where
  "rename_step e s =
     (case rename_file_path e of
        None \<Rightarrow> (Inr e, s)
      | Some dest \<Rightarrow>
          if dest \<in> dom (disk s)
          then (Inl (MentatError (RenameToExisting (file_path e) dest)), s)
          else (case delete_file (file_path e) (add_file dest s) of
                  (Inl err, s1) \<Rightarrow> (Inl err, s1)
                | (Inr _, s1) \<Rightarrow> (Inr (e\<lparr>file_path := dest\<rparr>), s1)))"

text \<open>
  Fifth block: the new lines are computed from the stored lines and written, joined by
  newlines, over the file at the edit's path. \<^verbatim>\<open>FileEdit.get_updated_file_lines\<close> is
  not part of the sources at hand, so it is the parameter \<open>upd\<close>, which may raise.
\<close>

definition write_lines ::
  "(file_edit \<Rightarrow> string list \<Rightarrow> error + string list) \<Rightarrow> file_edit \<Rightarrow> string list \<Rightarrow> state
     \<Rightarrow> (error + unit) \<times> state" where
  "write_lines upd e stored_lines s =
     (case upd e stored_lines of
        Inl err \<Rightarrow> (Inl err, s)
      | Inr new_lines \<Rightarrow> (Inr (), s\<lparr>disk := (disk s)(file_path e \<mapsto> join_lines new_lines)\<rparr>))"

text \<open>One iteration: the edit as the iteration leaves it, or the exception.\<close>

definition apply_edit ::
  "(file_edit \<Rightarrow> string list \<Rightarrow> error + string list) \<Rightarrow> (nat \<Rightarrow> bool) \<Rightarrow> file_edit \<Rightarrow> state
     \<Rightarrow> (error + file_edit) \<times> state" where
  "apply_edit upd user e s =
     (case check_target e s of
        (Inl err, s1) \<Rightarrow> (Inl err, s1)
      | (Inr _, s1) \<Rightarrow>
     (case confirm_deletion user e s1 of
        (Inl err, s2) \<Rightarrow> (Inl err, s2)
      | (Inr True, s2) \<Rightarrow> (Inr e, s2)
      | (Inr False, s2) \<Rightarrow>
     (case conflict_check user e s2 of
        (Inl err, s3) \<Rightarrow> (Inl err, s3)
      | (Inr stored_lines, s3) \<Rightarrow>
     (case rename_step e s3 of
        (Inl err, s4) \<Rightarrow> (Inl err, s4)
      | (Inr e', s4) \<Rightarrow>
     (case write_lines upd e' stored_lines s4 of
        (Inl err, s5) \<Rightarrow> (Inl err, s5)
      | (Inr _, s5) \<Rightarrow> (Inr e', s5))))))"

text \<open>
  \<^verbatim>\<open>write_changes_to_files\<close>: the edits in list order; the first exception ends the
  batch, with the state the earlier edits and the failing one have produced.
\<close>

fun write_changes_to_files ::
  "(file_edit \<Rightarrow> string list \<Rightarrow> error + string list) \<Rightarrow> (nat \<Rightarrow> bool) \<Rightarrow> file_edit list \<Rightarrow> state
     \<Rightarrow> error option \<times> state" where
  "write_changes_to_files upd user [] s = (None, s)"
| "write_changes_to_files upd user (e # es) s =
     (case apply_edit upd user e s of
        (Inl err, s1) \<Rightarrow> (Some err, s1)
      | (Inr _, s1) \<Rightarrow> write_changes_to_files upd user es s1)"

text \<open>
  Modelled from the spec: \<^verbatim>\<open>FileEdit.get_updated_file_lines\<close> of parsers/file_edit.py is
  missing. A replacement removes the lines \<open>[start, end)\<close> of the snapshot and puts its new
  lines there, \<^verbatim>\<open>L[:start] + new_lines + L[end:]\<close>; the replacements of an edit are applied
  in descending order of their start. The rejection of overlapping ranges is left out. The
  theorems about the engine hold for every such function, which is their parameter \<open>upd\<close>;
  the concrete inputs below, with at most one replacement in an edit, are run with this one.
\<close>

fun replacement_start :: "replacement \<Rightarrow> int" where
  "replacement_start (Replacement st en new) = st"

fun apply_replacement :: "replacement \<Rightarrow> string list \<Rightarrow> string list" where
  "apply_replacement (Replacement st en new) ls =
     py_slice ls None (Some st) @ new @ py_slice ls en None"

fun insert_desc :: "replacement \<Rightarrow> replacement list \<Rightarrow> replacement list" where
  "insert_desc r [] = [r]"
| "insert_desc r (q # qs) =
     (if replacement_start q \<le> replacement_start r then r # q # qs else q # insert_desc r qs)"

definition get_updated_file_lines :: "file_edit \<Rightarrow> string list \<Rightarrow> error + string list" where
  "get_updated_file_lines e ls =
     Inr (fold apply_replacement (foldr insert_desc (replacements e) []) ls)"

section \<open>The block dialect (parsers/block_parser.py)\<close>

text \<open>
  \<^verbatim>\<open>_BlockParserAction\<close> and its construction from a header value, which raises
  \<^verbatim>\<open>ValueError\<close> on any other text; \<^verbatim>\<open>FileActionType\<close> of change_display_helper.py as the
  parser uses it; the three indicator lines.
\<close>

datatype block_parser_action =
  Action_Insert | Action_Replace | Action_Delete |
  Action_CreateFile | Action_DeleteFile | Action_RenameFile

definition BlockParserAction :: "string \<Rightarrow> error + block_parser_action" where
  "BlockParserAction v =
     (if v = ''insert'' then Inr Action_Insert
      else if v = ''replace'' then Inr Action_Replace
      else if v = ''delete'' then Inr Action_Delete
      else if v = ''create-file'' then Inr Action_CreateFile
      else if v = ''delete-file'' then Inr Action_DeleteFile
      else if v = ''rename-file'' then Inr Action_RenameFile
      else Inl (ValueError (v @ '' is not a valid _BlockParserAction'')))"

datatype file_action_type = UpdateFile | CreateFile | DeleteFile | RenameFile

definition Indicator_Start :: string where "Indicator_Start = ''@@start''"
definition Indicator_Code :: string where "Indicator_Code = ''@@code''"
definition Indicator_End :: string where "Indicator_End = ''@@end''"

text \<open>
  The header as \<^verbatim>\<open>json.loads\<close> returns it, one field for each key of
  \<^verbatim>\<open>_BlockParserJsonKeys\<close>: \<^verbatim>\<open>file\<close>, \<^verbatim>\<open>action\<close>, \<^verbatim>\<open>name\<close>, \<^verbatim>\<open>insert-before-line\<close>,
  \<^verbatim>\<open>insert-after-line\<close>, \<^verbatim>\<open>start-line\<close>, \<^verbatim>\<open>end-line\<close>. A field is \<open>None\<close> when the key is
  absent or null. Paths and the action are JSON strings and line numbers are JSON integers,
  on which \<^verbatim>\<open>Path(..)\<close> and \<^verbatim>\<open>int(..)\<close> change nothing; other JSON types are outside the
  model.
\<close>

record json_data =
  json_file :: "string option"
  json_action :: "string option"
  json_name :: "string option"
  json_before_line :: "int option"
  json_after_line :: "int option"
  json_start_line :: "int option"
  json_end_line :: "int option"

text \<open>
  \<^verbatim>\<open>_BlockParserDeserializedJson\<close>: the same fields, the action as a member of the enum.
  The attribute \<^verbatim>\<open>file\<close> is the field \<open>file'\<close>, since the plain word is reserved.
\<close>

record deserialized_json =
  file' :: "path option"
  action :: "block_parser_action option"
  name :: "path option"
  before_line :: "int option"
  after_line :: "int option"
  start_line :: "int option"
  end_line :: "int option"

definition BlockParserDeserializedJson :: "json_data \<Rightarrow> error + deserialized_json" where
  "BlockParserDeserializedJson j =
     (case (case json_action j of
              None \<Rightarrow> Inr None
            | Some v \<Rightarrow> (case BlockParserAction v of Inl err \<Rightarrow> Inl err | Inr a \<Rightarrow> Inr (Some a))) of
        Inl err \<Rightarrow> Inl err
      | Inr a \<Rightarrow>
          Inr \<lparr>file' = json_file j, action = a, name = json_name j,
               before_line = json_before_line j, after_line = json_after_line j,
               start_line = json_start_line j, end_line = json_end_line j\<rparr>)"

text \<open>
  \<^verbatim>\<open>DisplayInformation\<close> of change_display_helper.py, with the eight values the parser
  passes to its constructor, in that order; \<^verbatim>\<open>_add_code_block\<close> reads the sixth and the
  seventh as \<^verbatim>\<open>first_changed_line\<close> and \<^verbatim>\<open>last_changed_line\<close>.
\<close>

record display_information =
  file_name :: path
  display_file_lines :: "string list"
  added_block :: "string list"
  removed_block :: "string list"
  file_action_type :: file_action_type
  first_changed_line :: int
  last_changed_line :: "int option"
  new_name :: "path option"

text \<open>
  \<^verbatim>\<open>str.strip()\<close>: whitespace is removed at both ends. Characters are the code points
  below 256, of which these are Python's whitespace.
\<close>

definition is_space :: "char \<Rightarrow> bool" where
  "is_space c \<longleftrightarrow>
     c \<in> {CHR 0x09, CHR 0x0A, CHR 0x0B, CHR 0x0C, CHR 0x0D, CHR 0x1C, CHR 0x1D, CHR 0x1E,
          CHR 0x1F, CHR 0x20, CHR 0x85, CHR 0xA0}"

definition strip :: "string \<Rightarrow> string" where
  "strip s = rev (dropWhile is_space (rev (dropWhile is_space s)))"

text \<open>
  The first lines of \<^verbatim>\<open>_special_block\<close>: the block is stripped and split, the lines
  between the first and the last are joined and parsed. \<^verbatim>\<open>json.loads\<close> is the parameter
  \<open>json_loads\<close>.
\<close>

definition load_json :: "(string \<Rightarrow> error + json_data) \<Rightarrow> string \<Rightarrow> error + json_data" where
  "load_json json_loads special_block_text =
     (let block = split_lines (strip special_block_text);
          json_lines = py_slice block (Some 1) (Some (- 1))
      in json_loads (join_lines json_lines))"

text \<open>
  The \<^verbatim>\<open>match\<close> statement: the starting line, the ending line and the file action. In the
  replace and delete case \<^verbatim>\<open>start_line - 1\<close> raises \<^verbatim>\<open>TypeError\<close> on a missing start line,
  and the end line is passed on as it is.
\<close>

definition match_action ::
  "block_parser_action \<Rightarrow> deserialized_json \<Rightarrow> error + (int \<times> int option \<times> file_action_type)" where
  "match_action act dj =
     (case act of
        Action_Insert \<Rightarrow>
          (case before_line dj of
             Some b \<Rightarrow>
               (case after_line dj of
                  Some a \<Rightarrow>
                    if b - 1 \<noteq> a then Inl (ValueError ''Insert line numbers invalid'')
                    else Inr (b - 1, Some (b - 1), UpdateFile)
                | None \<Rightarrow> Inr (b - 1, Some (b - 1), UpdateFile))
           | None \<Rightarrow>
               (case after_line dj of
                  Some a \<Rightarrow> Inr (a, Some a, UpdateFile)
                | None \<Rightarrow> Inl (ValueError ''Insert line number not specified'')))
      | Action_Replace \<Rightarrow>
          (case start_line dj of
             None \<Rightarrow> Inl TypeError
           | Some st \<Rightarrow> Inr (st - 1, end_line dj, UpdateFile))
      | Action_Delete \<Rightarrow>
          (case start_line dj of
             None \<Rightarrow> Inl TypeError
           | Some st \<Rightarrow> Inr (st - 1, end_line dj, UpdateFile))
      | Action_CreateFile \<Rightarrow> Inr (0, Some 0, CreateFile)
      | Action_DeleteFile \<Rightarrow> Inr (0, Some 0, DeleteFile)
      | Action_RenameFile \<Rightarrow> Inr (0, Some 0, RenameFile))"

text \<open>
  The snapshot shown with the change: nothing for a new file, otherwise the stored lines
  of the path that \<^verbatim>\<open>rename_map.get(path, path)\<close> gives. \<^verbatim>\<open>git_root / None\<close> raises
  \<^verbatim>\<open>TypeError\<close>, a path without stored lines \<^verbatim>\<open>KeyError\<close>.
\<close>

definition snapshot_lines ::
  "(path \<rightharpoonup> string list) \<Rightarrow> (path \<rightharpoonup> path) \<Rightarrow> file_action_type \<Rightarrow> path option
     \<Rightarrow> error + string list" where
  "snapshot_lines stored rename_map file_action f =
     (if file_action = CreateFile then Inr []
      else (case f of
              None \<Rightarrow> Inl TypeError
            | Some p \<Rightarrow>
                (case stored (case rename_map p of None \<Rightarrow> p | Some q \<Rightarrow> q) of
                   None \<Rightarrow> Inl (KeyError (case rename_map p of None \<Rightarrow> p | Some q \<Rightarrow> q))
                 | Some ls \<Rightarrow> Inr ls)))"

text \<open>
  \<^verbatim>\<open>BlockParser._special_block\<close>, given \<^verbatim>\<open>code_file_manager.file_lines\<close>, the rename map
  and the text of the block up to and including the line that closed the header.
\<close>

definition special_block ::
  "(string \<Rightarrow> error + json_data) \<Rightarrow> (path \<rightharpoonup> string list) \<Rightarrow> (path \<rightharpoonup> path) \<Rightarrow> string
     \<Rightarrow> error + (display_information \<times> file_edit \<times> bool)" where
  "special_block json_loads stored rename_map special_block_text =
     (case load_json json_loads special_block_text of
        Inl err \<Rightarrow> Inl err
      | Inr j \<Rightarrow>
     (case BlockParserDeserializedJson j of
        Inl err \<Rightarrow> Inl err
      | Inr dj \<Rightarrow>
     (case action dj of
        None \<Rightarrow> Inl (ValueError [])
      | Some act \<Rightarrow>
     (case match_action act dj of
        Inl err \<Rightarrow> Inl err
      | Inr (starting_line, ending_line, file_action) \<Rightarrow>
     (case snapshot_lines stored rename_map file_action (file' dj) of
        Inl err \<Rightarrow> Inl err
      | Inr flines \<Rightarrow>
     (case file' dj of
        None \<Rightarrow> Inl TypeError
      | Some f \<Rightarrow>
          Inr (\<lparr>file_name = f, display_file_lines = flines, added_block = [],
                removed_block = py_slice flines (Some starting_line) ending_line,
                file_action_type = file_action,
                first_changed_line = starting_line, last_changed_line = ending_line,
                new_name = name dj\<rparr>,
               \<lparr>file_path = f,
                replacements =
                  (if act = Action_Delete then [Replacement starting_line ending_line []]
                   else []),
                is_creation = (file_action = CreateFile),
                is_deletion = (file_action = DeleteFile),
                rename_file_path = name dj\<rparr>,
               last (split_lines (strip special_block_text)) = Indicator_Code)))))))"

text \<open>
  \<^verbatim>\<open>BlockParser._add_code_block\<close>: one replacement is appended, with the range stored in
  the display information and all lines of the code text but the last two.
\<close>

definition add_code_block ::
  "string \<Rightarrow> string \<Rightarrow> display_information \<Rightarrow> file_edit \<Rightarrow> file_edit" where
  "add_code_block special_block_text code_block disp e =
     e\<lparr>replacements := replacements e @
          [Replacement (first_changed_line disp) (last_changed_line disp)
             (py_slice (split_lines code_block) None (Some (- 2)))]\<rparr>"

section \<open>Concrete inputs\<close>

text \<open>
  One tracked file of four lines, the same file after an edit made outside the session, and
  the edits and users the theorems below are run on.
\<close>

definition tracked_state :: state where
  "tracked_state =
     \<lparr>disk = [''f.txt'' \<mapsto> join_lines [''aaa'', ''bbb'', ''ccc'', ''ddd'']],
      files = {''f.txt''},
      file_lines = [''f.txt'' \<mapsto> [''aaa'', ''bbb'', ''ccc'', ''ddd'']],
      out = [], asked = 0\<rparr>"

definition drifted_state :: state where
  "drifted_state = tracked_state\<lparr>disk := [''f.txt'' \<mapsto> ''zzz'']\<rparr>"

definition replace_edit :: file_edit where
  "replace_edit =
     \<lparr>file_path = ''f.txt'', replacements = [Replacement 1 (Some 3) [''XXX'', ''YYY'']],
      is_creation = False, is_deletion = False, rename_file_path = None\<rparr>"

definition delete_rename_edit :: file_edit where
  "delete_rename_edit =
     \<lparr>file_path = ''f.txt'', replacements = [],
      is_creation = False, is_deletion = True, rename_file_path = Some ''g.txt''\<rparr>"

definition create_edit :: file_edit where
  "create_edit =
     \<lparr>file_path = ''new.txt'', replacements = [Replacement 0 (Some 0) [''hello'']],
      is_creation = True, is_deletion = False, rename_file_path = None\<rparr>"

definition rename_edit :: file_edit where
  "rename_edit =
     \<lparr>file_path = ''f.txt'', replacements = [Replacement 1 (Some 3) [''XXX'', ''YYY'']],
      is_creation = False, is_deletion = False, rename_file_path = Some ''g.txt''\<rparr>"

definition delete_edit :: file_edit where
  "delete_edit =
     \<lparr>file_path = ''f.txt'', replacements = [],
      is_creation = False, is_deletion = True, rename_file_path = None\<rparr>"

definition always_no :: "nat \<Rightarrow> bool" where
  "always_no k = False"

definition always_yes :: "nat \<Rightarrow> bool" where
  "always_yes k = True"


text \<open>
  Stand-ins for \<^verbatim>\<open>json.loads\<close> on the concrete inputs: a table of the texts it knows with
  their parsed headers, and one that returns the same header for every text.
\<close>

definition json_loads_table :: "(string \<times> json_data) list \<Rightarrow> string \<Rightarrow> error + json_data" where
  "json_loads_table tab txt =
     (case map_of tab txt of None \<Rightarrow> Inl (OtherError ''JSONDecodeError'') | Some j \<Rightarrow> Inr j)"

definition always_header :: "json_data \<Rightarrow> string \<Rightarrow> error + json_data" where
  "always_header j txt = Inr j"

definition no_header :: json_data where
  "no_header =
     \<lparr>json_file = None, json_action = None, json_name = None, json_before_line = None,
      json_after_line = None, json_start_line = None, json_end_line = None\<rparr>"

text \<open>The block of the end-to-end example: lines 2 to 3 of f.txt are replaced.\<close>

definition replace_header :: json_data where
  "replace_header =
     no_header\<lparr>json_file := Some ''f.txt'', json_action := Some ''replace'',
               json_start_line := Some 2, json_end_line := Some 3\<rparr>"

definition replace_json :: string where
  \<open>replace_json = ''{"file":"f.txt","action":"replace","start-line":2,"end-line":3}''\<close>

definition replace_block :: string where
  "replace_block = Indicator_Start @ NL # replace_json @ NL # Indicator_Code @ [NL]"

text \<open>The same range, deleted: the block ends with the end marker.\<close>

definition delete_header :: json_data where
  "delete_header = replace_header\<lparr>json_action := Some ''delete''\<rparr>"

definition delete_json :: string where
  \<open>delete_json = ''{"file":"f.txt","action":"delete","start-line":2,"end-line":3}''\<close>

definition delete_block :: string where
  "delete_block = Indicator_Start @ NL # delete_json @ NL # Indicator_End @ [NL]"

text \<open>
  A session in which \<open>old.txt\<close> has been renamed to \<open>new.txt\<close>, with the table from the old
  path to the new one, and a later block that names the old path.
\<close>

definition renamed_header :: json_data where
  "renamed_header =
     no_header\<lparr>json_file := Some ''old.txt'', json_action := Some ''insert'',
               json_after_line := Some 1\<rparr>"

definition renamed_json :: string where
  \<open>renamed_json = ''{"file":"old.txt","action":"insert","insert-after-line":1}''\<close>

definition renamed_block :: string where
  "renamed_block = Indicator_Start @ NL # renamed_json @ NL # Indicator_Code @ [NL]"

definition renamed_map :: "path \<rightharpoonup> path" where
  "renamed_map = [''old.txt'' \<mapsto> ''new.txt'']"

definition renamed_stored :: "path \<rightharpoonup> string list" where
  "renamed_stored = [''old.txt'' \<mapsto> [''aaa''], ''new.txt'' \<mapsto> [''bbb'']]"

definition headers :: "(string \<times> json_data) list" where
  "headers =
     [(replace_json, replace_header), (delete_json, delete_header),
      (renamed_json, renamed_header)]"

text \<open>Insert headers for f.txt with the given two line numbers, and a block around them.\<close>

definition insert_header :: "int option \<Rightarrow> int option \<Rightarrow> json_data" where
  "insert_header b a =
     no_header\<lparr>json_file := Some ''f.txt'', json_action := Some ''insert'',
               json_before_line := b, json_after_line := a\<rparr>"

definition insert_block :: string where
  "insert_block = Indicator_Start @ NL # ''{}'' @ NL # Indicator_Code @ [NL]"

section \<open>Theorems\<close>

subsection \<open>Lines of text\<close>

lemma split_lines_not_Nil: "split_lines s \<noteq> []"
  by (induction s) (auto split: list.splits)

lemma join_split_lines: "join_lines (split_lines s) = s"
proof (induction s)
  case Nil
  show ?case by simp
next
  case (Cons c cs)
  obtain l ls where sp: "split_lines cs = l # ls"
    using split_lines_not_Nil [of cs] by (cases "split_lines cs") auto
  show ?case
  proof (cases "c = NL")
    case True
    with Cons sp show ?thesis by simp
  next
    case False
    have "join_lines ((c # l) # ls) = c # join_lines (l # ls)"
      by (cases ls) auto
    with False Cons sp show ?thesis by simp
  qed
qed

subsection \<open>Configuration priority\<close>

text \<open>
  C10. A key is looked up in the project configuration first, then in the user
  configuration, then in the built-in default configuration; the first of the three that
  holds the key supplies the value, and a key held by none of them gives a
  \<^verbatim>\<open>ValueError\<close>.
\<close>

theorem get_key_priority:
  "(project_config c key = Some v \<longrightarrow> get_key c key = Inr v) \<and>
   (project_config c key = None \<and> user_config c key = Some v \<longrightarrow> get_key c key = Inr v) \<and>
   (project_config c key = None \<and> user_config c key = None \<and> default_config c key = Some v
      \<longrightarrow> get_key c key = Inr v) \<and>
   (project_config c key = None \<and> user_config c key = None \<and> default_config c key = None
      \<longrightarrow> (\<exists>msg. get_key c key = Inl (ValueError msg)))"
  by (auto simp: get_key_def dom_def)

theorem get_key_priority_witness:
  "get_key test_config ''project-first'' = Inr ''project'' \<and>
   get_key test_config ''user-second'' = Inr ''user'' \<and>
   get_key test_config ''default-last'' = Inr ''default'' \<and>
   (\<exists>msg. get_key test_config ''non-existent'' = Inl (ValueError msg))"
  using get_key_priority [of test_config "''project-first''" "''project''"]
        get_key_priority [of test_config "''user-second''" "''user''"]
        get_key_priority [of test_config "''default-last''" "''default''"]
        get_key_priority [of test_config "''non-existent''"]
  by (simp add: test_config_def)

subsection \<open>The blocks of one iteration\<close>

lemmas engine_defs =
  apply_edit_def check_target_def confirm_deletion_def conflict_check_def rename_step_def
  write_lines_def add_file_def delete_file_def read_file_def ask_yes_no_def send_def
  get_updated_file_lines_def py_slice_def py_bound_def NL_def

lemmas example_defs =
  tracked_state_def drifted_state_def replace_edit_def delete_rename_edit_def create_edit_def
  rename_edit_def delete_edit_def always_no_def always_yes_def

lemma write_changes_append:
  "write_changes_to_files upd user (es1 @ es2) s =
     (case write_changes_to_files upd user es1 s of
        (None, s1) \<Rightarrow> write_changes_to_files upd user es2 s1
      | (Some err, s1) \<Rightarrow> (Some err, s1))"
  by (induction es1 arbitrary: s) (auto split: prod.splits sum.splits)

lemma check_target_fails:
  assumes "(is_creation e \<and> file_path e \<in> dom (disk s)) \<or>
           (\<not> is_creation e \<and> (file_path e \<notin> dom (disk s) \<or> file_path e \<notin> files s))"
  shows "check_target e s =
           (Inl (MentatError (if is_creation e then CreateExisting (file_path e)
                              else if file_path e \<notin> dom (disk s) then EditNonExistent (file_path e)
                              else EditNotInContext (file_path e))), s)"
  using assms by (auto simp: check_target_def)

lemma check_target_ok:
  assumes "if is_creation e then file_path e \<notin> dom (disk s)
           else file_path e \<in> dom (disk s) \<and> file_path e \<in> files s"
  shows "check_target e s = (Inr (), if is_creation e then add_file (file_path e) s else s)"
  using assms by (auto simp: check_target_def)

lemma apply_edit_check_fails:
  "check_target e s = (Inl err, s1) \<Longrightarrow> apply_edit upd user e s = (Inl err, s1)"
  by (simp add: apply_edit_def)

lemma confirm_deletion_accepted:
  assumes "is_deletion e" "user (asked s)" "file_path e \<in> dom (disk s)"
  shows "confirm_deletion user e s =
           (Inr True, s\<lparr>disk := (disk s)(file_path e := None),
                        files := files s - {file_path e},
                        out := out s @ [Send (AreYouSureDelete (file_path e)), AskYesNo False,
                                        Send (Deleting (file_path e))],
                        asked := Suc (asked s)\<rparr>)"
  using assms by (simp add: confirm_deletion_def ask_yes_no_def send_def delete_file_def)

lemma confirm_deletion_proceeds:
  assumes "is_deletion e \<longrightarrow> \<not> user (asked s)"
  shows "confirm_deletion user e s =
           (Inr False,
            if is_deletion e
            then s\<lparr>out := out s @ [Send (AreYouSureDelete (file_path e)), AskYesNo False,
                                   Send (NotDeleting (file_path e))],
                   asked := Suc (asked s)\<rparr>
            else s)"
  using assms by (simp add: confirm_deletion_def ask_yes_no_def send_def)

lemma conflict_check_creation: "is_creation e \<Longrightarrow> conflict_check user e s = (Inr [], s)"
  by (simp add: conflict_check_def)

lemma conflict_check_existing:
  assumes "\<not> is_creation e" "file_lines s (file_path e) = Some stored"
    and "disk s (file_path e) = Some cur"
  shows "conflict_check user e s =
           (Inr stored,
            if stored \<noteq> split_lines cur
            then s\<lparr>out := out s @ Send (FileChanged (file_path e)) # AskYesNo False #
                            (if user (asked s) then [] else [Send (NotApplying (file_path e))]),
                   asked := Suc (asked s)\<rparr>
            else s)"
  using assms by (simp add: conflict_check_def read_file_def ask_yes_no_def send_def)

lemma rename_step_exists:
  "rename_file_path e = Some dest \<Longrightarrow> dest \<in> dom (disk s) \<Longrightarrow>
     rename_step e s = (Inl (MentatError (RenameToExisting (file_path e) dest)), s)"
  by (simp add: rename_step_def)

lemma rename_step_ok:
  assumes "rename_file_path e = Some dest" "dest \<notin> dom (disk s)" "file_path e \<in> dom (disk s)"
  shows "rename_step e s =
           (Inr (e\<lparr>file_path := dest\<rparr>),
            s\<lparr>files := insert dest (files s) - {file_path e},
              disk := (disk s)(dest \<mapsto> [], file_path e := None)\<rparr>)"
  using assms by (auto simp: rename_step_def delete_file_def add_file_def)

lemma rename_step_none: "rename_file_path e = None \<Longrightarrow> rename_step e s = (Inr e, s)"
  by (simp add: rename_step_def)

text \<open>
  An edit that passes the checks and is not deleted reaches the rename with the disk
  and the tracked set as the first block left them, whatever the conflict check found and
  whatever the user answered there.
\<close>

lemma apply_edit_proceeds:
  assumes ok: "if is_creation e then file_path e \<notin> dom (disk s) \<and> stored = []
               else file_path e \<in> dom (disk s) \<and> file_path e \<in> files s \<and>
                    file_lines s (file_path e) = Some stored"
    and nd: "is_deletion e \<longrightarrow> \<not> user (asked s)"
  shows "\<exists>s3. disk s3 = (if is_creation e then (disk s)(file_path e \<mapsto> []) else disk s) \<and>
              files s3 = (if is_creation e then insert (file_path e) (files s) else files s) \<and>
              file_lines s3 = file_lines s \<and>
              apply_edit upd user e s =
                (case rename_step e s3 of
                   (Inl err, s4) \<Rightarrow> (Inl err, s4)
                 | (Inr e', s4) \<Rightarrow>
                     (case write_lines upd e' stored s4 of
                        (Inl err, s5) \<Rightarrow> (Inl err, s5)
                      | (Inr _, s5) \<Rightarrow> (Inr e', s5)))"
proof -
  define s1 where "s1 = (if is_creation e then add_file (file_path e) s else s)"
  have c: "check_target e s = (Inr (), s1)"
    unfolding s1_def using ok by (intro check_target_ok) (auto split: if_splits)
  have nd1: "is_deletion e \<longrightarrow> \<not> user (asked s1)"
    using nd by (simp add: s1_def add_file_def)
  define s2 where "s2 = (if is_deletion e
            then s1\<lparr>out := out s1 @ [Send (AreYouSureDelete (file_path e)), AskYesNo False,
                                   Send (NotDeleting (file_path e))],
                   asked := Suc (asked s1)\<rparr>
            else s1)"
  have d: "confirm_deletion user e s1 = (Inr False, s2)"
    unfolding s2_def using nd1 by (rule confirm_deletion_proceeds)
  have s2: "disk s2 = (if is_creation e then (disk s)(file_path e \<mapsto> []) else disk s)"
    "files s2 = (if is_creation e then insert (file_path e) (files s) else files s)"
    "file_lines s2 = file_lines s"
    by (simp_all add: s2_def s1_def add_file_def)
  obtain s3 where k: "conflict_check user e s2 = (Inr stored, s3)"
    and s3: "disk s3 = disk s2" "files s3 = files s2" "file_lines s3 = file_lines s2"
  proof (cases "is_creation e")
    case True
    with ok have "conflict_check user e s2 = (Inr stored, s2)"
      by (simp add: conflict_check_creation)
    then show ?thesis using that by blast
  next
    case False
    with ok obtain cur where t: "disk s2 (file_path e) = Some cur"
      unfolding s2 by auto
    from False ok have fl: "file_lines s2 (file_path e) = Some stored"
      unfolding s2 by simp
    show ?thesis
      using that conflict_check_existing [OF False fl t, of user]
      by (cases "stored \<noteq> split_lines cur") simp_all
  qed
  have "apply_edit upd user e s =
                (case rename_step e s3 of
                   (Inl err, s4) \<Rightarrow> (Inl err, s4)
                 | (Inr e', s4) \<Rightarrow>
                     (case write_lines upd e' stored s4 of
                        (Inl err, s5) \<Rightarrow> (Inl err, s5)
                      | (Inr _, s5) \<Rightarrow> (Inr e', s5)))"
    by (simp add: apply_edit_def c d k)
  then show ?thesis
    by (intro exI [of _ s3]) (simp add: s3 s2)
qed

text \<open>The three ways such an edit ends: the destination exists, the file is renamed and
  written, the file is written in place.\<close>

lemma apply_edit_rename_exists:
  assumes rn: "rename_file_path e = Some dest"
    and ok: "if is_creation e then file_path e \<notin> dom (disk s) \<and> stored = []
             else file_path e \<in> dom (disk s) \<and> file_path e \<in> files s \<and>
                  file_lines s (file_path e) = Some stored"
    and nd: "is_deletion e \<longrightarrow> \<not> user (asked s)"
    and ex: "dest \<in> dom (disk s) \<or> dest = file_path e"
  shows "\<exists>s'. apply_edit upd user e s =
                 (Inl (MentatError (RenameToExisting (file_path e) dest)), s') \<and>
              file_path e \<in> dom (disk s')"
proof -
  from apply_edit_proceeds [where e = e and s = s and stored = stored and user = user
      and upd = upd, OF ok nd]
  obtain s3 where
    d3: "disk s3 = (if is_creation e then (disk s)(file_path e \<mapsto> []) else disk s)" and
    ae: "apply_edit upd user e s =
                (case rename_step e s3 of
                   (Inl err, s4) \<Rightarrow> (Inl err, s4)
                 | (Inr e', s4) \<Rightarrow>
                     (case write_lines upd e' stored s4 of
                        (Inl err, s5) \<Rightarrow> (Inl err, s5)
                      | (Inr _, s5) \<Rightarrow> (Inr e', s5)))"
    by blast
  have src: "file_path e \<in> dom (disk s3)"
    using ok d3 by (auto split: if_splits)
  from ex src d3 have "dest \<in> dom (disk s3)"
    by (auto split: if_splits)
  from rename_step_exists [OF rn this] ae src show ?thesis
    by simp
qed

lemma apply_edit_renamed:
  assumes rn: "rename_file_path e = Some dest"
    and ok: "if is_creation e then file_path e \<notin> dom (disk s) \<and> stored = []
             else file_path e \<in> dom (disk s) \<and> file_path e \<in> files s \<and>
                  file_lines s (file_path e) = Some stored"
    and nd: "is_deletion e \<longrightarrow> \<not> user (asked s)"
    and free: "dest \<notin> dom (disk s)" "dest \<noteq> file_path e"
  shows "\<exists>s'. files s' = insert dest (files s) - {file_path e} \<and>
              (case upd (e\<lparr>file_path := dest\<rparr>) stored of
                 Inr new_lines \<Rightarrow>
                   apply_edit upd user e s = (Inr (e\<lparr>file_path := dest\<rparr>), s') \<and>
                   disk s' = (disk s)(file_path e := None, dest \<mapsto> join_lines new_lines)
               | Inl err \<Rightarrow>
                   apply_edit upd user e s = (Inl err, s') \<and>
                   disk s' = (disk s)(file_path e := None, dest \<mapsto> []))"
proof -
  from apply_edit_proceeds [where e = e and s = s and stored = stored and user = user
      and upd = upd, OF ok nd]
  obtain s3 where
    d3: "disk s3 = (if is_creation e then (disk s)(file_path e \<mapsto> []) else disk s)" and
    f3: "files s3 = (if is_creation e then insert (file_path e) (files s) else files s)" and
    ae: "apply_edit upd user e s =
                (case rename_step e s3 of
                   (Inl err, s4) \<Rightarrow> (Inl err, s4)
                 | (Inr e', s4) \<Rightarrow>
                     (case write_lines upd e' stored s4 of
                        (Inl err, s5) \<Rightarrow> (Inl err, s5)
                      | (Inr _, s5) \<Rightarrow> (Inr e', s5)))"
    by blast
  have src: "file_path e \<in> dom (disk s3)"
    using ok d3 by (auto split: if_splits)
  from free d3 have "dest \<notin> dom (disk s3)"
    by (auto split: if_splits)
  from rename_step_ok [OF rn this src] ae
  have ae': "apply_edit upd user e s =
                (case write_lines upd (e\<lparr>file_path := dest\<rparr>) stored
                        (s3\<lparr>files := insert dest (files s3) - {file_path e},
                            disk := (disk s3)(dest \<mapsto> [], file_path e := None)\<rparr>) of
                        (Inl err, s5) \<Rightarrow> (Inl err, s5)
                      | (Inr _, s5) \<Rightarrow> (Inr (e\<lparr>file_path := dest\<rparr>), s5))"
    by simp
  have fs: "insert dest (files s3) - {file_path e} = insert dest (files s) - {file_path e}"
    using f3 by auto
  have ds: "(disk s3)(dest \<mapsto> [], file_path e := None) =
            (disk s)(file_path e := None, dest \<mapsto> [])"
    using d3 free by (auto simp: fun_eq_iff)
  show ?thesis
  proof (cases "upd (e\<lparr>file_path := dest\<rparr>) stored")
    case (Inl err)
    then show ?thesis
      unfolding ae'
      by (intro exI [of _ "s3\<lparr>files := insert dest (files s3) - {file_path e},
                          disk := (disk s3)(dest \<mapsto> [], file_path e := None)\<rparr>"])
         (simp add: write_lines_def fs ds)
  next
    case (Inr new_lines)
    then show ?thesis
      unfolding ae'
      by (intro exI [of _ "s3\<lparr>files := insert dest (files s3) - {file_path e},
                          disk := (disk s)(file_path e := None, dest \<mapsto> join_lines new_lines)\<rparr>"])
         (simp add: write_lines_def fs ds)
  qed
qed

lemma apply_edit_in_place:
  assumes rn: "rename_file_path e = None"
    and ok: "if is_creation e then file_path e \<notin> dom (disk s) \<and> stored = []
             else file_path e \<in> dom (disk s) \<and> file_path e \<in> files s \<and>
                  file_lines s (file_path e) = Some stored"
    and nd: "is_deletion e \<longrightarrow> \<not> user (asked s)"
  shows "\<exists>s'. files s' = (if is_creation e then insert (file_path e) (files s) else files s) \<and>
              (case upd e stored of
                 Inr new_lines \<Rightarrow>
                   apply_edit upd user e s = (Inr e, s') \<and>
                   disk s' = (disk s)(file_path e \<mapsto> join_lines new_lines)
               | Inl err \<Rightarrow>
                   apply_edit upd user e s = (Inl err, s') \<and>
                   disk s' = (if is_creation e then (disk s)(file_path e \<mapsto> []) else disk s))"
proof -
  from apply_edit_proceeds [where e = e and s = s and stored = stored and user = user
      and upd = upd, OF ok nd]
  obtain s3 where
    d3: "disk s3 = (if is_creation e then (disk s)(file_path e \<mapsto> []) else disk s)" and
    f3: "files s3 = (if is_creation e then insert (file_path e) (files s) else files s)" and
    ae: "apply_edit upd user e s =
                (case rename_step e s3 of
                   (Inl err, s4) \<Rightarrow> (Inl err, s4)
                 | (Inr e', s4) \<Rightarrow>
                     (case write_lines upd e' stored s4 of
                        (Inl err, s5) \<Rightarrow> (Inl err, s5)
                      | (Inr _, s5) \<Rightarrow> (Inr e', s5)))"
    by blast
  have ae': "apply_edit upd user e s =
               (case write_lines upd e stored s3 of
                  (Inl err, s5) \<Rightarrow> (Inl err, s5)
                | (Inr _, s5) \<Rightarrow> (Inr e, s5))"
    using ae by (simp add: rename_step_none [OF rn])
  show ?thesis
  proof (cases "upd e stored")
    case (Inl err)
    then show ?thesis
      unfolding ae' by (intro exI [of _ s3]) (simp add: write_lines_def f3 d3)
  next
    case (Inr new_lines)
    then show ?thesis
      unfolding ae'
      by (intro exI [of _ "s3\<lparr>disk := (disk s3)(file_path e \<mapsto> join_lines new_lines)\<rparr>"])
         (simp add: write_lines_def f3 d3)
  qed
qed


subsection \<open>Existence and scope errors end the batch\<close>

text \<open>
  C6. A creation edit whose target already exists, and an edit of an existing file whose
  target is not on disk or is not in the tracked set, raise a \<^verbatim>\<open>MentatError\<close> that ends
  the batch: whatever edits follow the failing one, the batch returns that error with
  exactly the state the earlier edits produced, so nothing after the failing edit is
  applied and nothing before it is undone.
\<close>

theorem state_error_batch_fatal:
  assumes prefix: "write_changes_to_files upd user es1 s = (None, s1)"
    and bad: "(is_creation e \<and> file_path e \<in> dom (disk s1)) \<or>
              (\<not> is_creation e \<and> (file_path e \<notin> dom (disk s1) \<or> file_path e \<notin> files s1))"
  shows "write_changes_to_files upd user (es1 @ e # es2) s =
           (Some (MentatError (if is_creation e then CreateExisting (file_path e)
                               else if file_path e \<notin> dom (disk s1) then EditNonExistent (file_path e)
                               else EditNotInContext (file_path e))), s1)"
proof -
  from check_target_fails [OF bad]
  have "apply_edit upd user e s1 =
           (Inl (MentatError (if is_creation e then CreateExisting (file_path e)
                               else if file_path e \<notin> dom (disk s1) then EditNonExistent (file_path e)
                               else EditNotInContext (file_path e))), s1)"
    by (rule apply_edit_check_fails)
  with prefix show ?thesis
    by (simp add: write_changes_append)
qed

theorem state_error_batch_fatal_witness:
  "fst (write_changes_to_files get_updated_file_lines always_no [create_edit] tracked_state) = None \<and>
   disk (snd (write_changes_to_files get_updated_file_lines always_no [create_edit] tracked_state))
     ''new.txt'' = Some ''hello'' \<and>
   write_changes_to_files get_updated_file_lines always_no
       ([create_edit] @ create_edit # [replace_edit]) tracked_state =
     (Some (MentatError (CreateExisting ''new.txt'')),
      snd (write_changes_to_files get_updated_file_lines always_no [create_edit] tracked_state))"
proof -
  have r: "fst (write_changes_to_files get_updated_file_lines always_no [create_edit]
                  tracked_state) = None"
    by (simp add: engine_defs example_defs)
  have d: "disk (snd (write_changes_to_files get_updated_file_lines always_no [create_edit]
                        tracked_state)) ''new.txt'' = Some ''hello''"
    by (simp add: engine_defs example_defs)
  have p: "write_changes_to_files get_updated_file_lines always_no [create_edit] tracked_state =
             (None, snd (write_changes_to_files get_updated_file_lines always_no [create_edit]
                           tracked_state))"
    using r by (simp add: prod_eq_iff)
  have c: "is_creation create_edit" and f: "file_path create_edit = ''new.txt''"
    by (simp_all add: create_edit_def)
  have b: "(is_creation create_edit \<and>
            file_path create_edit \<in> dom (disk (snd (write_changes_to_files get_updated_file_lines
                                         always_no [create_edit] tracked_state)))) \<or>
           (\<not> is_creation create_edit \<and>
            (file_path create_edit \<notin> dom (disk (snd (write_changes_to_files get_updated_file_lines
                                         always_no [create_edit] tracked_state))) \<or>
             file_path create_edit \<notin> files (snd (write_changes_to_files get_updated_file_lines
                                         always_no [create_edit] tracked_state))))"
    using c d unfolding f by (intro disjI1 conjI domI)
  from state_error_batch_fatal [OF p b, of "[replace_edit]"] r d show ?thesis
    unfolding f using c by simp
qed

subsection \<open>An accepted deletion\<close>

text \<open>
  C8. For an edit with \<^verbatim>\<open>is_deletion\<close> set that passes the existence checks, when the
  user accepts the confirmation (asked with default answer no), the path is removed from
  the disk and from the tracked set, nothing is written for it, and the batch goes on with
  the next edit from that state.
\<close>

theorem deletion_accepted:
  assumes del: "is_deletion e" and yes: "user (asked s)"
    and ok: "if is_creation e then file_path e \<notin> dom (disk s)
             else file_path e \<in> dom (disk s) \<and> file_path e \<in> files s"
  shows "apply_edit upd user e s =
           (Inr e, s\<lparr>disk := (disk s)(file_path e := None),
                     files := files s - {file_path e},
                     out := out s @ [Send (AreYouSureDelete (file_path e)), AskYesNo False,
                                     Send (Deleting (file_path e))],
                     asked := Suc (asked s)\<rparr>) \<and>
         write_changes_to_files upd user (e # es) s =
           write_changes_to_files upd user es
             (s\<lparr>disk := (disk s)(file_path e := None),
                files := files s - {file_path e},
                out := out s @ [Send (AreYouSureDelete (file_path e)), AskYesNo False,
                                Send (Deleting (file_path e))],
                asked := Suc (asked s)\<rparr>)"
proof -
  define s1 where "s1 = (if is_creation e then add_file (file_path e) s else s)"
  have c: "check_target e s = (Inr (), s1)"
    unfolding s1_def using ok by (rule check_target_ok)
  have a: "asked s1 = asked s" and d: "file_path e \<in> dom (disk s1)"
    using ok by (auto simp: s1_def add_file_def split: if_splits)
  have "confirm_deletion user e s1 =
           (Inr True, s1\<lparr>disk := (disk s1)(file_path e := None),
                        files := files s1 - {file_path e},
                        out := out s1 @ [Send (AreYouSureDelete (file_path e)), AskYesNo False,
                                        Send (Deleting (file_path e))],
                        asked := Suc (asked s1)\<rparr>)"
    using del yes d unfolding a [symmetric] by (intro confirm_deletion_accepted)
  then have "apply_edit upd user e s =
           (Inr e, s\<lparr>disk := (disk s)(file_path e := None),
                     files := files s - {file_path e},
                     out := out s @ [Send (AreYouSureDelete (file_path e)), AskYesNo False,
                                     Send (Deleting (file_path e))],
                     asked := Suc (asked s)\<rparr>)"
    using c by (auto simp: apply_edit_def s1_def add_file_def)
  then show ?thesis by simp
qed

theorem deletion_accepted_witness:
  "is_deletion delete_edit \<and> always_yes (asked tracked_state) \<and>
   file_path delete_edit \<in> dom (disk tracked_state) \<and>
   file_path delete_edit \<in> files tracked_state \<and>
   apply_edit get_updated_file_lines always_yes delete_edit tracked_state =
     (Inr delete_edit,
      tracked_state\<lparr>disk := (disk tracked_state)(''f.txt'' := None),
                    files := files tracked_state - {''f.txt''},
                    out := [Send (AreYouSureDelete ''f.txt''), AskYesNo False,
                            Send (Deleting ''f.txt'')],
                    asked := Suc 0\<rparr>) \<and>
   write_changes_to_files get_updated_file_lines always_yes [delete_edit, create_edit]
       tracked_state =
     write_changes_to_files get_updated_file_lines always_yes [create_edit]
       (tracked_state\<lparr>disk := (disk tracked_state)(''f.txt'' := None),
                     files := files tracked_state - {''f.txt''},
                     out := [Send (AreYouSureDelete ''f.txt''), AskYesNo False,
                             Send (Deleting ''f.txt'')],
                     asked := Suc 0\<rparr>)"
proof -
  have del: "is_deletion delete_edit" and f: "file_path delete_edit = ''f.txt''"
    and nc: "\<not> is_creation delete_edit"
    by (simp_all add: delete_edit_def)
  have yes: "always_yes (asked tracked_state)"
    by (simp add: always_yes_def)
  have on: "file_path delete_edit \<in> dom (disk tracked_state)"
    and tr: "file_path delete_edit \<in> files tracked_state"
    and o: "out tracked_state = []" and a: "asked tracked_state = 0"
    by (simp_all add: f tracked_state_def)
  have ok: "if is_creation delete_edit then file_path delete_edit \<notin> dom (disk tracked_state)
            else file_path delete_edit \<in> dom (disk tracked_state) \<and>
                 file_path delete_edit \<in> files tracked_state"
    using nc on tr by simp
  from deletion_accepted [where user = always_yes and upd = get_updated_file_lines
      and es = "[create_edit]", OF del yes ok] del yes on tr
  show ?thesis
    unfolding f o a by simp
qed

subsection \<open>Rename\<close>

text \<open>
  C7. For an edit carrying a rename target that passes the existence checks and is not
  deleted: when the destination exists at the time of the rename (it is on disk already, or
  it is the edit's own path), the iteration raises \<^verbatim>\<open>MentatError\<close>, the batch ends
  with that error and the source file is still there; otherwise the destination is created
  and the source deleted, so that the tracked set gains the destination and loses the source,
  the edit's path becomes the destination, and the new content is written at the
  destination (when computing the new lines raises, the destination is left empty).
\<close>

theorem rename_performed:
  assumes rn: "rename_file_path e = Some dest"
    and ok: "if is_creation e then file_path e \<notin> dom (disk s) \<and> stored = []
             else file_path e \<in> dom (disk s) \<and> file_path e \<in> files s \<and>
                  file_lines s (file_path e) = Some stored"
    and nd: "is_deletion e \<longrightarrow> \<not> user (asked s)"
  shows "(dest \<in> dom (disk s) \<or> dest = file_path e \<longrightarrow>
           (\<exists>s'. apply_edit upd user e s =
                    (Inl (MentatError (RenameToExisting (file_path e) dest)), s') \<and>
                 write_changes_to_files upd user (e # es) s =
                    (Some (MentatError (RenameToExisting (file_path e) dest)), s') \<and>
                 file_path e \<in> dom (disk s'))) \<and>
         (dest \<notin> dom (disk s) \<and> dest \<noteq> file_path e \<longrightarrow>
           (\<exists>s'. files s' = insert dest (files s) - {file_path e} \<and>
                 (case upd (e\<lparr>file_path := dest\<rparr>) stored of
                    Inr new_lines \<Rightarrow>
                      apply_edit upd user e s = (Inr (e\<lparr>file_path := dest\<rparr>), s') \<and>
                      disk s' = (disk s)(file_path e := None, dest \<mapsto> join_lines new_lines)
                  | Inl err \<Rightarrow>
                      apply_edit upd user e s = (Inl err, s') \<and>
                      disk s' = (disk s)(file_path e := None, dest \<mapsto> []))))"
proof (intro conjI impI)
  assume ex: "dest \<in> dom (disk s) \<or> dest = file_path e"
  from apply_edit_rename_exists [where upd = upd and user = user, OF rn ok nd ex]
  obtain s' where
    "apply_edit upd user e s = (Inl (MentatError (RenameToExisting (file_path e) dest)), s')"
    "file_path e \<in> dom (disk s')"
    by blast
  then show "\<exists>s'. apply_edit upd user e s =
                    (Inl (MentatError (RenameToExisting (file_path e) dest)), s') \<and>
                 write_changes_to_files upd user (e # es) s =
                    (Some (MentatError (RenameToExisting (file_path e) dest)), s') \<and>
                 file_path e \<in> dom (disk s')"
    by (intro exI [of _ s']) simp
next
  assume "dest \<notin> dom (disk s) \<and> dest \<noteq> file_path e"
  then have free: "dest \<notin> dom (disk s)" "dest \<noteq> file_path e"
    by simp_all
  show "\<exists>s'. files s' = insert dest (files s) - {file_path e} \<and>
                 (case upd (e\<lparr>file_path := dest\<rparr>) stored of
                    Inr new_lines \<Rightarrow>
                      apply_edit upd user e s = (Inr (e\<lparr>file_path := dest\<rparr>), s') \<and>
                      disk s' = (disk s)(file_path e := None, dest \<mapsto> join_lines new_lines)
                  | Inl err \<Rightarrow>
                      apply_edit upd user e s = (Inl err, s') \<and>
                      disk s' = (disk s)(file_path e := None, dest \<mapsto> []))"
    by (rule apply_edit_renamed [where upd = upd and user = user, OF rn ok nd free])
qed

theorem rename_performed_witness:
  "(\<exists>s'. files s' = {''g.txt''} \<and>
         apply_edit get_updated_file_lines always_no rename_edit tracked_state =
           (Inr (rename_edit\<lparr>file_path := ''g.txt''\<rparr>), s') \<and>
         disk s' = [''g.txt'' \<mapsto> join_lines [''aaa'', ''XXX'', ''YYY'', ''ddd'']]) \<and>
   (\<exists>s'. apply_edit get_updated_file_lines always_no
            (rename_edit\<lparr>rename_file_path := Some ''f.txt''\<rparr>) tracked_state =
            (Inl (MentatError (RenameToExisting ''f.txt'' ''f.txt'')), s') \<and>
         write_changes_to_files get_updated_file_lines always_no
            [rename_edit\<lparr>rename_file_path := Some ''f.txt''\<rparr>, create_edit] tracked_state =
            (Some (MentatError (RenameToExisting ''f.txt'' ''f.txt'')), s') \<and>
         ''f.txt'' \<in> dom (disk s'))"
proof -
  have st: "disk tracked_state = [''f.txt'' \<mapsto> join_lines [''aaa'', ''bbb'', ''ccc'', ''ddd'']]"
    "files tracked_state = {''f.txt''}"
    "file_lines tracked_state ''f.txt'' = Some [''aaa'', ''bbb'', ''ccc'', ''ddd'']"
    by (simp_all add: tracked_state_def)
  have up: "get_updated_file_lines (rename_edit\<lparr>file_path := ''g.txt''\<rparr>)
              [''aaa'', ''bbb'', ''ccc'', ''ddd''] = Inr [''aaa'', ''XXX'', ''YYY'', ''ddd'']"
    by (simp add: rename_edit_def get_updated_file_lines_def py_slice_def py_bound_def)
  have rn: "rename_file_path rename_edit = Some ''g.txt''"
    and f: "file_path rename_edit = ''f.txt''"
    and nc: "\<not> is_creation rename_edit" and ndl: "\<not> is_deletion rename_edit"
    by (simp_all add: rename_edit_def)
  have ok: "if is_creation rename_edit
            then file_path rename_edit \<notin> dom (disk tracked_state) \<and>
                 [''aaa'', ''bbb'', ''ccc'', ''ddd''] = []
            else file_path rename_edit \<in> dom (disk tracked_state) \<and>
                 file_path rename_edit \<in> files tracked_state \<and>
                 file_lines tracked_state (file_path rename_edit) =
                   Some [''aaa'', ''bbb'', ''ccc'', ''ddd'']"
    using nc by (simp add: f st)
  have nd: "is_deletion rename_edit \<longrightarrow> \<not> always_no (asked tracked_state)"
    using ndl by simp
  have g: "''g.txt'' \<notin> dom (disk tracked_state) \<and> ''g.txt'' \<noteq> file_path rename_edit"
    by (simp add: f st)
  have m: "(disk tracked_state)(''f.txt'' := None,
              ''g.txt'' \<mapsto> join_lines [''aaa'', ''XXX'', ''YYY'', ''ddd'']) =
           [''g.txt'' \<mapsto> join_lines [''aaa'', ''XXX'', ''YYY'', ''ddd'']]"
    unfolding st by (simp add: fun_eq_iff)
  have A: "\<exists>s'. files s' = {''g.txt''} \<and>
         apply_edit get_updated_file_lines always_no rename_edit tracked_state =
           (Inr (rename_edit\<lparr>file_path := ''g.txt''\<rparr>), s') \<and>
         disk s' = [''g.txt'' \<mapsto> join_lines [''aaa'', ''XXX'', ''YYY'', ''ddd'']]"
    using rename_performed [where upd = get_updated_file_lines and user = always_no
        and es = "[]", OF rn ok nd] g
    unfolding f up st(2) m [symmetric] by auto
  let ?e = "rename_edit\<lparr>rename_file_path := Some ''f.txt''\<rparr>"
  have rn2: "rename_file_path ?e = Some ''f.txt''" and f2: "file_path ?e = ''f.txt''"
    and nc2: "\<not> is_creation ?e" and ndl2: "\<not> is_deletion ?e"
    by (simp_all add: rename_edit_def)
  have ok2: "if is_creation ?e
            then file_path ?e \<notin> dom (disk tracked_state) \<and>
                 [''aaa'', ''bbb'', ''ccc'', ''ddd''] = []
            else file_path ?e \<in> dom (disk tracked_state) \<and>
                 file_path ?e \<in> files tracked_state \<and>
                 file_lines tracked_state (file_path ?e) =
                   Some [''aaa'', ''bbb'', ''ccc'', ''ddd'']"
    using nc2 by (simp add: f2 st)
  have nd2: "is_deletion ?e \<longrightarrow> \<not> always_no (asked tracked_state)"
    using ndl2 by simp
  have B: "\<exists>s'. apply_edit get_updated_file_lines always_no ?e tracked_state =
            (Inl (MentatError (RenameToExisting ''f.txt'' ''f.txt'')), s') \<and>
         write_changes_to_files get_updated_file_lines always_no [?e, create_edit] tracked_state =
            (Some (MentatError (RenameToExisting ''f.txt'' ''f.txt'')), s') \<and>
         ''f.txt'' \<in> dom (disk s')"
    using rename_performed [where upd = get_updated_file_lines and user = always_no
        and es = "[create_edit]", OF rn2 ok2 nd2]
    unfolding f2 by blast
  from A B show ?thesis by (rule conjI)
qed

subsection \<open>A declined deletion\<close>

text \<open>
  C2, as the code has it. The specification says that a declined deletion ends the work
  on the edit. The loop only sends "Not deleting" and goes on with the same edit: here the user
  declines, and the rename carried by the edit is performed all the same, so that the
  target file is gone after the batch.
\<close>

theorem deletion_declined_counterexample:
  "fst (write_changes_to_files get_updated_file_lines always_no [delete_rename_edit] tracked_state)
     = None \<and>
   is_deletion delete_rename_edit \<and>
   out (snd (write_changes_to_files get_updated_file_lines always_no [delete_rename_edit]
               tracked_state)) =
     [Send (AreYouSureDelete ''f.txt''), AskYesNo False, Send (NotDeleting ''f.txt'')] \<and>
   disk tracked_state ''f.txt'' = Some (join_lines [''aaa'', ''bbb'', ''ccc'', ''ddd'']) \<and>
   disk (snd (write_changes_to_files get_updated_file_lines always_no [delete_rename_edit]
                tracked_state)) ''f.txt'' = None \<and>
   disk (snd (write_changes_to_files get_updated_file_lines always_no [delete_rename_edit]
                tracked_state)) ''g.txt'' = Some (join_lines [''aaa'', ''bbb'', ''ccc'', ''ddd''])"
  by (simp add: engine_defs example_defs)

text \<open>
  C2, amended. For an edit with \<^verbatim>\<open>is_deletion\<close> set that passes the existence checks,
  when the user answers no, the file is not deleted and the edit is then processed like
  any other edit. Let the file be as its snapshot has it, or the user accept the conflict
  confirmation that follows. Without a rename target the target file still exists and is
  tracked after the edit, holding the text computed from the snapshot, which is the file's
  own text when the computed lines are the snapshot and the snapshot is what the file
  holds. With a rename target whose destination is free, the rename is performed and the
  text is written at the destination. In both cases the batch goes on with the next edit.
\<close>

theorem deletion_declined:
  assumes del: "is_deletion e" and no: "\<not> user (asked s)"
    and ok: "if is_creation e then file_path e \<notin> dom (disk s) \<and> stored = []
             else file_path e \<in> dom (disk s) \<and> file_path e \<in> files s \<and>
                  file_lines s (file_path e) = Some stored"
    and conf: "is_creation e \<or>
               (\<exists>c. disk s (file_path e) = Some c \<and>
                    (split_lines c = stored \<or> user (Suc (asked s))))"
  shows "(rename_file_path e = None \<and> upd e stored = Inr new_lines \<longrightarrow>
           (\<exists>s'. apply_edit upd user e s = (Inr e, s') \<and>
                 write_changes_to_files upd user (e # es) s =
                   write_changes_to_files upd user es s' \<and>
                 disk s' = (disk s)(file_path e \<mapsto> join_lines new_lines) \<and>
                 file_path e \<in> files s')) \<and>
         (rename_file_path e = None \<and> upd e stored = Inr stored \<and>
          disk s (file_path e) = Some cur \<and> split_lines cur = stored \<longrightarrow>
           (\<exists>s'. apply_edit upd user e s = (Inr e, s') \<and> disk s' = disk s)) \<and>
         (rename_file_path e = Some dest \<and> dest \<notin> dom (disk s) \<and> dest \<noteq> file_path e \<and>
          upd (e\<lparr>file_path := dest\<rparr>) stored = Inr new_lines \<longrightarrow>
           (\<exists>s'. apply_edit upd user e s = (Inr (e\<lparr>file_path := dest\<rparr>), s') \<and>
                 write_changes_to_files upd user (e # es) s =
                   write_changes_to_files upd user es s' \<and>
                 disk s' = (disk s)(file_path e := None, dest \<mapsto> join_lines new_lines) \<and>
                 files s' = insert dest (files s) - {file_path e}))"
proof -
  have nd: "is_deletion e \<longrightarrow> \<not> user (asked s)"
    using no by simp
  have A: "\<exists>s'. apply_edit upd user e s = (Inr e, s') \<and>
                 write_changes_to_files upd user (e # es) s =
                   write_changes_to_files upd user es s' \<and>
                 disk s' = (disk s)(file_path e \<mapsto> join_lines ls) \<and>
                 file_path e \<in> files s'"
    if rn: "rename_file_path e = None" and u: "upd e stored = Inr ls" for ls
  proof -
    from apply_edit_in_place [where upd = upd and user = user, OF rn ok nd] u
    obtain s' where
      f: "files s' = (if is_creation e then insert (file_path e) (files s) else files s)" and
      a: "apply_edit upd user e s = (Inr e, s')" and
      d: "disk s' = (disk s)(file_path e \<mapsto> join_lines ls)"
      by auto
    have "file_path e \<in> files s'"
      using f ok by (auto split: if_splits)
    with a d show ?thesis
      by (intro exI [of _ s']) simp
  qed
  have B: "\<exists>s'. apply_edit upd user e s = (Inr e, s') \<and> disk s' = disk s"
    if rn: "rename_file_path e = None" and u: "upd e stored = Inr stored"
      and c: "disk s (file_path e) = Some cur" and sp: "split_lines cur = stored"
  proof -
    from A [OF rn u] obtain s' where
      a: "apply_edit upd user e s = (Inr e, s')" and
      d: "disk s' = (disk s)(file_path e \<mapsto> join_lines stored)"
      by blast
    have "join_lines stored = cur"
      using sp join_split_lines [of cur] by simp
    with d c have "disk s' = disk s"
      by (simp add: fun_eq_iff)
    with a show ?thesis by blast
  qed
  have C: "\<exists>s'. apply_edit upd user e s = (Inr (e\<lparr>file_path := dest\<rparr>), s') \<and>
                 write_changes_to_files upd user (e # es) s =
                   write_changes_to_files upd user es s' \<and>
                 disk s' = (disk s)(file_path e := None, dest \<mapsto> join_lines new_lines) \<and>
                 files s' = insert dest (files s) - {file_path e}"
    if rn: "rename_file_path e = Some dest" and free: "dest \<notin> dom (disk s)" "dest \<noteq> file_path e"
      and u: "upd (e\<lparr>file_path := dest\<rparr>) stored = Inr new_lines"
  proof -
    from apply_edit_renamed [where upd = upd and user = user, OF rn ok nd free] u
    obtain s' where
      "files s' = insert dest (files s) - {file_path e}"
      "apply_edit upd user e s = (Inr (e\<lparr>file_path := dest\<rparr>), s')"
      "disk s' = (disk s)(file_path e := None, dest \<mapsto> join_lines new_lines)"
      by auto
    then show ?thesis
      by (intro exI [of _ s']) simp
  qed
  from A B C show ?thesis by blast
qed

theorem deletion_declined_witness:
  "is_deletion delete_edit \<and> \<not> always_no (asked tracked_state) \<and>
   (\<exists>s'. apply_edit get_updated_file_lines always_no delete_edit tracked_state =
            (Inr delete_edit, s') \<and>
         disk s' = disk tracked_state) \<and>
   (\<exists>s'. apply_edit get_updated_file_lines always_no delete_rename_edit tracked_state =
            (Inr (delete_rename_edit\<lparr>file_path := ''g.txt''\<rparr>), s') \<and>
         write_changes_to_files get_updated_file_lines always_no
            [delete_rename_edit, create_edit] tracked_state =
         write_changes_to_files get_updated_file_lines always_no [create_edit] s' \<and>
         disk s' = (disk tracked_state)(''f.txt'' := None,
                      ''g.txt'' \<mapsto> join_lines [''aaa'', ''bbb'', ''ccc'', ''ddd'']) \<and>
         files s' = {''g.txt''})"
proof -
  let ?ls = "[''aaa'', ''bbb'', ''ccc'', ''ddd'']"
  have st: "disk tracked_state ''f.txt'' = Some (join_lines ?ls)"
    "''f.txt'' \<in> dom (disk tracked_state)" "''g.txt'' \<notin> dom (disk tracked_state)"
    "files tracked_state = {''f.txt''}"
    "file_lines tracked_state ''f.txt'' = Some ?ls"
    by (simp_all add: tracked_state_def)
  have no: "\<not> always_no (asked tracked_state)"
    by (simp add: always_no_def)
  have del: "is_deletion delete_edit" and f: "file_path delete_edit = ''f.txt''"
    and nc: "\<not> is_creation delete_edit" and rn: "rename_file_path delete_edit = None"
    and up: "get_updated_file_lines delete_edit ?ls = Inr ?ls"
    by (simp_all add: delete_edit_def get_updated_file_lines_def)
  have ok: "if is_creation delete_edit
            then file_path delete_edit \<notin> dom (disk tracked_state) \<and> ?ls = []
            else file_path delete_edit \<in> dom (disk tracked_state) \<and>
                 file_path delete_edit \<in> files tracked_state \<and>
                 file_lines tracked_state (file_path delete_edit) = Some ?ls"
    using nc by (simp add: f st)
  have sp: "split_lines (join_lines ?ls) = ?ls"
    by (simp add: NL_def)
  have conf: "is_creation delete_edit \<or>
              (\<exists>c. disk tracked_state (file_path delete_edit) = Some c \<and>
                   (split_lines c = ?ls \<or> always_no (Suc (asked tracked_state))))"
    using st(1) sp unfolding f by blast
  have A: "\<exists>s'. apply_edit get_updated_file_lines always_no delete_edit tracked_state =
            (Inr delete_edit, s') \<and>
         disk s' = disk tracked_state"
    using deletion_declined [where upd = get_updated_file_lines and user = always_no
        and cur = "join_lines ?ls", OF del no ok conf] rn up st(1) sp
    unfolding f by blast
  have del2: "is_deletion delete_rename_edit" and f2: "file_path delete_rename_edit = ''f.txt''"
    and nc2: "\<not> is_creation delete_rename_edit"
    and rn2: "rename_file_path delete_rename_edit = Some ''g.txt''"
    and up2: "get_updated_file_lines (delete_rename_edit\<lparr>file_path := ''g.txt''\<rparr>) ?ls = Inr ?ls"
    by (simp_all add: delete_rename_edit_def get_updated_file_lines_def)
  have ok2: "if is_creation delete_rename_edit
            then file_path delete_rename_edit \<notin> dom (disk tracked_state) \<and> ?ls = []
            else file_path delete_rename_edit \<in> dom (disk tracked_state) \<and>
                 file_path delete_rename_edit \<in> files tracked_state \<and>
                 file_lines tracked_state (file_path delete_rename_edit) = Some ?ls"
    using nc2 by (simp add: f2 st)
  have fs: "insert ''g.txt'' {''f.txt''} - {''f.txt''} = {''g.txt''}"
    by auto
  have conf2: "is_creation delete_rename_edit \<or>
              (\<exists>c. disk tracked_state (file_path delete_rename_edit) = Some c \<and>
                   (split_lines c = ?ls \<or> always_no (Suc (asked tracked_state))))"
    using st(1) sp unfolding f2 by blast
  have B: "\<exists>s'. apply_edit get_updated_file_lines always_no delete_rename_edit tracked_state =
            (Inr (delete_rename_edit\<lparr>file_path := ''g.txt''\<rparr>), s') \<and>
         write_changes_to_files get_updated_file_lines always_no
            [delete_rename_edit, create_edit] tracked_state =
         write_changes_to_files get_updated_file_lines always_no [create_edit] s' \<and>
         disk s' = (disk tracked_state)(''f.txt'' := None,
                      ''g.txt'' \<mapsto> join_lines [''aaa'', ''bbb'', ''ccc'', ''ddd'']) \<and>
         files s' = {''g.txt''}"
    using deletion_declined [where upd = get_updated_file_lines and user = always_no
        and dest = "''g.txt''" and new_lines = ?ls and es = "[create_edit]",
        OF del2 no ok2 conf2]
      rn2 up2 st(3)
    unfolding f2 st(4) fs by simp
  from del no A B show ?thesis by blast
qed

subsection \<open>A declined conflict confirmation\<close>

text \<open>
  C1. The specification says that declining the conflict confirmation leaves the file's
  content unchanged. The code sends "Not applying changes to file" and then applies them: the
  branch has no \<^verbatim>\<open>continue\<close>. Here the tracked file was changed outside the session to
  the single line \<open>zzz\<close>, the user declines, and the file is overwritten with the text
  computed from the snapshot.
\<close>

theorem conflict_declined_still_written:
  "fst (write_changes_to_files get_updated_file_lines always_no [replace_edit] drifted_state) = None \<and>
   disk drifted_state ''f.txt'' = Some ''zzz'' \<and>
   file_lines drifted_state ''f.txt'' = Some [''aaa'', ''bbb'', ''ccc'', ''ddd''] \<and>
   out (snd (write_changes_to_files get_updated_file_lines always_no [replace_edit] drifted_state)) =
     [Send (FileChanged ''f.txt''), AskYesNo False, Send (NotApplying ''f.txt'')] \<and>
   disk (snd (write_changes_to_files get_updated_file_lines always_no [replace_edit] drifted_state))
     ''f.txt'' = Some (join_lines [''aaa'', ''XXX'', ''YYY'', ''ddd''])"
  by (simp add: engine_defs example_defs)

subsection \<open>Header decoding\<close>

lemmas parser_defs =
  special_block_def load_json_def BlockParserDeserializedJson_def BlockParserAction_def
  match_action_def snapshot_lines_def add_code_block_def strip_def is_space_def
  Indicator_Start_def Indicator_Code_def Indicator_End_def py_slice_def py_bound_def NL_def

lemmas parser_example_defs =
  json_loads_table_def always_header_def no_header_def replace_header_def replace_json_def
  replace_block_def delete_header_def delete_json_def delete_block_def renamed_header_def
  renamed_json_def renamed_block_def renamed_map_def renamed_stored_def headers_def
  insert_header_def insert_block_def

lemma deserialized_insert:
  "json_action j = Some ''insert'' \<Longrightarrow>
     BlockParserDeserializedJson j =
       Inr \<lparr>file' = json_file j, action = Some Action_Insert, name = json_name j,
            before_line = json_before_line j, after_line = json_after_line j,
            start_line = json_start_line j, end_line = json_end_line j\<rparr>"
  by (simp add: BlockParserDeserializedJson_def BlockParserAction_def)

lemma deserialized_replace:
  "json_action j = Some ''replace'' \<Longrightarrow>
     BlockParserDeserializedJson j =
       Inr \<lparr>file' = json_file j, action = Some Action_Replace, name = json_name j,
            before_line = json_before_line j, after_line = json_after_line j,
            start_line = json_start_line j, end_line = json_end_line j\<rparr>"
  by (simp add: BlockParserDeserializedJson_def BlockParserAction_def)

lemma deserialized_delete:
  "json_action j = Some ''delete'' \<Longrightarrow>
     BlockParserDeserializedJson j =
       Inr \<lparr>file' = json_file j, action = Some Action_Delete, name = json_name j,
            before_line = json_before_line j, after_line = json_after_line j,
            start_line = json_start_line j, end_line = json_end_line j\<rparr>"
  by (simp add: BlockParserDeserializedJson_def BlockParserAction_def)

lemma deserialized_fields:
  "BlockParserDeserializedJson j = Inr dj \<Longrightarrow>
     file' dj = json_file j \<and> name dj = json_name j \<and> before_line dj = json_before_line j \<and>
     after_line dj = json_after_line j \<and> start_line dj = json_start_line j \<and>
     end_line dj = json_end_line j"
  by (auto simp: BlockParserDeserializedJson_def split: sum.splits option.splits)

lemma snapshot_lines_found:
  "stored (case rename_map f of None \<Rightarrow> f | Some q \<Rightarrow> q) = Some ls \<Longrightarrow>
     snapshot_lines stored rename_map UpdateFile (Some f) = Inr ls"
  by (simp add: snapshot_lines_def)

text \<open>
  C4. For a header with action insert: with \<^verbatim>\<open>insert-before-line\<close> \<open>b\<close> the range is
  \<open>b - 1\<close> to \<open>b - 1\<close>, provided \<^verbatim>\<open>insert-after-line\<close> is absent or equal to \<open>b - 1\<close>, and
  decoding raises \<^verbatim>\<open>ValueError\<close> when it is present and different; with only
  \<^verbatim>\<open>insert-after-line\<close> \<open>a\<close> the range is \<open>a\<close> to \<open>a\<close>; with neither, decoding raises
  \<^verbatim>\<open>ValueError\<close>. The ranges are those of a header that names a file with stored lines.
\<close>

theorem insert_range:
  assumes hdr: "load_json json_loads sb = Inr j" and act: "json_action j = Some ''insert''"
  shows "(json_before_line j = Some b \<and>
          (json_after_line j = None \<or> json_after_line j = Some (b - 1)) \<and>
          json_file j = Some f \<and>
          stored (case rename_map f of None \<Rightarrow> f | Some q \<Rightarrow> q) = Some ls \<longrightarrow>
            (\<exists>disp e hc. special_block json_loads stored rename_map sb = Inr (disp, e, hc) \<and>
               first_changed_line disp = b - 1 \<and> last_changed_line disp = Some (b - 1) \<and>
               file_path e = f \<and> replacements e = [])) \<and>
         (json_before_line j = Some b \<and> json_after_line j = Some a \<and> a \<noteq> b - 1 \<longrightarrow>
            special_block json_loads stored rename_map sb =
              Inl (ValueError ''Insert line numbers invalid'')) \<and>
         (json_before_line j = None \<and> json_after_line j = Some a \<and>
          json_file j = Some f \<and>
          stored (case rename_map f of None \<Rightarrow> f | Some q \<Rightarrow> q) = Some ls \<longrightarrow>
            (\<exists>disp e hc. special_block json_loads stored rename_map sb = Inr (disp, e, hc) \<and>
               first_changed_line disp = a \<and> last_changed_line disp = Some a \<and>
               file_path e = f \<and> replacements e = [])) \<and>
         (json_before_line j = None \<and> json_after_line j = None \<longrightarrow>
            special_block json_loads stored rename_map sb =
              Inl (ValueError ''Insert line number not specified''))"
  using hdr deserialized_insert [OF act]
  by (auto simp: special_block_def match_action_def snapshot_lines_found)

theorem insert_range_witness:
  "(\<exists>disp e hc. special_block (always_header (insert_header (Some 5) None))
                   (file_lines tracked_state) Map.empty insert_block = Inr (disp, e, hc) \<and>
      first_changed_line disp = 4 \<and> last_changed_line disp = Some 4 \<and>
      file_path e = ''f.txt'' \<and> replacements e = []) \<and>
   (\<exists>disp e hc. special_block (always_header (insert_header None (Some 4)))
                   (file_lines tracked_state) Map.empty insert_block = Inr (disp, e, hc) \<and>
      first_changed_line disp = 4 \<and> last_changed_line disp = Some 4 \<and>
      file_path e = ''f.txt'' \<and> replacements e = []) \<and>
   (\<exists>disp e hc. special_block (always_header (insert_header (Some 5) (Some 4)))
                   (file_lines tracked_state) Map.empty insert_block = Inr (disp, e, hc) \<and>
      first_changed_line disp = 4 \<and> last_changed_line disp = Some 4 \<and>
      file_path e = ''f.txt'' \<and> replacements e = []) \<and>
   special_block (always_header (insert_header (Some 5) (Some 5)))
       (file_lines tracked_state) Map.empty insert_block =
     Inl (ValueError ''Insert line numbers invalid'') \<and>
   special_block (always_header (insert_header None None))
       (file_lines tracked_state) Map.empty insert_block =
     Inl (ValueError ''Insert line number not specified'')"
proof -
  have l: "load_json (always_header h) insert_block = Inr h" for h
    by (simp add: load_json_def always_header_def)
  have a: "json_action (insert_header x y) = Some ''insert''"
    and f: "json_file (insert_header x y) = Some ''f.txt''"
    and b: "json_before_line (insert_header x y) = x"
    and c: "json_after_line (insert_header x y) = y" for x y
    by (simp_all add: insert_header_def no_header_def)
  have s: "file_lines tracked_state (case Map.empty ''f.txt'' of None \<Rightarrow> ''f.txt'' | Some q \<Rightarrow> q) =
             Some [''aaa'', ''bbb'', ''ccc'', ''ddd'']"
    by (simp add: tracked_state_def)
  from insert_range [OF l a, of "Some 5" None 5 "''f.txt''" "file_lines tracked_state" Map.empty
      "[''aaa'', ''bbb'', ''ccc'', ''ddd'']"]
  have A: "\<exists>disp e hc. special_block (always_header (insert_header (Some 5) None))
                   (file_lines tracked_state) Map.empty insert_block = Inr (disp, e, hc) \<and>
      first_changed_line disp = 4 \<and> last_changed_line disp = Some 4 \<and>
      file_path e = ''f.txt'' \<and> replacements e = []"
    unfolding f b c using s by simp
  from insert_range [OF l a, of None "Some 4" _ "''f.txt''" "file_lines tracked_state" Map.empty
      "[''aaa'', ''bbb'', ''ccc'', ''ddd'']" 4]
  have B: "\<exists>disp e hc. special_block (always_header (insert_header None (Some 4)))
                   (file_lines tracked_state) Map.empty insert_block = Inr (disp, e, hc) \<and>
      first_changed_line disp = 4 \<and> last_changed_line disp = Some 4 \<and>
      file_path e = ''f.txt'' \<and> replacements e = []"
    unfolding f b c using s by simp
  from insert_range [OF l a, of "Some 5" "Some 4" 5 "''f.txt''" "file_lines tracked_state"
      Map.empty "[''aaa'', ''bbb'', ''ccc'', ''ddd'']"]
  have C: "\<exists>disp e hc. special_block (always_header (insert_header (Some 5) (Some 4)))
                   (file_lines tracked_state) Map.empty insert_block = Inr (disp, e, hc) \<and>
      first_changed_line disp = 4 \<and> last_changed_line disp = Some 4 \<and>
      file_path e = ''f.txt'' \<and> replacements e = []"
    unfolding f b c using s by simp
  from insert_range [OF l a, of "Some 5" "Some 5" 5 _ "file_lines tracked_state" Map.empty _ 5]
  have D: "special_block (always_header (insert_header (Some 5) (Some 5)))
       (file_lines tracked_state) Map.empty insert_block =
     Inl (ValueError ''Insert line numbers invalid'')"
    unfolding f b c by simp
  from insert_range [OF l a, of None None _ _ "file_lines tracked_state" Map.empty]
  have E: "special_block (always_header (insert_header None None))
       (file_lines tracked_state) Map.empty insert_block =
     Inl (ValueError ''Insert line number not specified'')"
    unfolding f b c by simp
  from A B C D E show ?thesis by blast
qed

text \<open>
  C5. For a header with action replace or delete that has a start line and names a file
  with stored lines, decoding gives the range from \<open>start-line - 1\<close> to \<open>end-line\<close>; a
  delete header gets the replacement of that range by no lines at once, a replace header
  gets none yet. Whether a code section follows is read from the closing line of the
  header alone, so a delete block that ends with the end marker has none.
\<close>

theorem replace_delete_range:
  assumes hdr: "load_json json_loads sb = Inr j"
    and act: "json_action j = Some ''replace'' \<or> json_action j = Some ''delete''"
    and st: "json_start_line j = Some st"
    and f: "json_file j = Some f"
    and ls: "stored (case rename_map f of None \<Rightarrow> f | Some q \<Rightarrow> q) = Some ls"
  shows "\<exists>disp e.
           special_block json_loads stored rename_map sb =
             Inr (disp, e, last (split_lines (strip sb)) = Indicator_Code) \<and>
           first_changed_line disp = st - 1 \<and> last_changed_line disp = json_end_line j \<and>
           file_path e = f \<and>
           replacements e =
             (if json_action j = Some ''delete''
              then [Replacement (st - 1) (json_end_line j) []] else [])"
  using act
proof
  assume "json_action j = Some ''replace''"
  with hdr st f ls deserialized_replace [of j] show ?thesis
    by (simp add: special_block_def match_action_def snapshot_lines_found)
next
  assume "json_action j = Some ''delete''"
  with hdr st f ls deserialized_delete [of j] show ?thesis
    by (simp add: special_block_def match_action_def snapshot_lines_found)
qed

theorem replace_delete_range_witness:
  "(\<exists>disp e. special_block (json_loads_table headers) (file_lines tracked_state) Map.empty
                replace_block = Inr (disp, e, True) \<and>
      first_changed_line disp = 1 \<and> last_changed_line disp = Some 3 \<and>
      file_path e = ''f.txt'' \<and> replacements e = []) \<and>
   (\<exists>disp e. special_block (json_loads_table headers) (file_lines tracked_state) Map.empty
                delete_block = Inr (disp, e, False) \<and>
      first_changed_line disp = 1 \<and> last_changed_line disp = Some 3 \<and>
      file_path e = ''f.txt'' \<and> replacements e = [Replacement 1 (Some 3) []])"
proof -
  have s: "file_lines tracked_state (case Map.empty ''f.txt'' of None \<Rightarrow> ''f.txt'' | Some q \<Rightarrow> q) =
             Some [''aaa'', ''bbb'', ''ccc'', ''ddd'']"
    by (simp add: tracked_state_def)
  have l1: "load_json (json_loads_table headers) replace_block = Inr replace_header"
    by (simp add: parser_defs parser_example_defs)
  have h1: "json_action replace_header = Some ''replace'' \<or>
            json_action replace_header = Some ''delete''"
    "json_start_line replace_header = Some 2" "json_file replace_header = Some ''f.txt''"
    "json_end_line replace_header = Some 3" "json_action replace_header \<noteq> Some ''delete''"
    by (simp_all add: replace_header_def no_header_def)
  have c1: "(last (split_lines (strip replace_block)) = Indicator_Code) = True"
    by (simp add: parser_defs parser_example_defs)
  have A: "\<exists>disp e. special_block (json_loads_table headers) (file_lines tracked_state) Map.empty
                replace_block = Inr (disp, e, True) \<and>
      first_changed_line disp = 1 \<and> last_changed_line disp = Some 3 \<and>
      file_path e = ''f.txt'' \<and> replacements e = []"
    using replace_delete_range [where stored = "file_lines tracked_state"
        and rename_map = Map.empty, OF l1 h1(1) h1(2) h1(3) s]
    unfolding c1 h1(4) using h1(5) by simp
  have l2: "load_json (json_loads_table headers) delete_block = Inr delete_header"
    by (simp add: parser_defs parser_example_defs)
  have h2: "json_action delete_header = Some ''replace'' \<or>
            json_action delete_header = Some ''delete''"
    "json_start_line delete_header = Some 2" "json_file delete_header = Some ''f.txt''"
    "json_end_line delete_header = Some 3" "json_action delete_header = Some ''delete''"
    by (simp_all add: delete_header_def replace_header_def no_header_def)
  have c2: "(last (split_lines (strip delete_block)) = Indicator_Code) = False"
    by (simp add: parser_defs parser_example_defs)
  have B: "\<exists>disp e. special_block (json_loads_table headers) (file_lines tracked_state) Map.empty
                delete_block = Inr (disp, e, False) \<and>
      first_changed_line disp = 1 \<and> last_changed_line disp = Some 3 \<and>
      file_path e = ''f.txt'' \<and> replacements e = [Replacement 1 (Some 3) []]"
    using replace_delete_range [where stored = "file_lines tracked_state"
        and rename_map = Map.empty, OF l2 h2(1) h2(2) h2(3) s]
    unfolding c2 h2(4) using h2(5) by simp
  from A B show ?thesis by (rule conjI)
qed

subsection \<open>Paths of a renamed file\<close>

text \<open>
  C3, as the code has it. The specification says that the edit decoded from a block that
  names a renamed file's old path addresses the new path. The rename map is used for the stored
  lines only: with \<open>old.txt\<close> mapped to \<open>new.txt\<close> the display shows the lines stored for
  \<open>new.txt\<close>, and the edit still carries \<open>old.txt\<close>.
\<close>

theorem renamed_path_counterexample:
  "renamed_map ''old.txt'' = Some ''new.txt'' \<and>
   json_file renamed_header = Some ''old.txt'' \<and>
   special_block (json_loads_table headers) renamed_stored renamed_map renamed_block =
     Inr (\<lparr>file_name = ''old.txt'', display_file_lines = [''bbb''], added_block = [],
           removed_block = [], file_action_type = UpdateFile,
           first_changed_line = 1, last_changed_line = Some 1, new_name = None\<rparr>,
          \<lparr>file_path = ''old.txt'', replacements = [], is_creation = False,
           is_deletion = False, rename_file_path = None\<rparr>,
          True)"
  by (simp add: parser_defs parser_example_defs)

text \<open>
  C3, amended. Whenever a header is decoded, the path of the resulting edit and the file
  name of the display are the header's path as written, mapped or not; the rename map,
  with the written path as fallback, selects only the stored lines that the display
  carries, and only when the action does not create the file.
\<close>

theorem special_block_paths:
  assumes dec: "special_block json_loads stored rename_map sb = Inr (disp, e, hc)"
  shows "\<exists>j f. load_json json_loads sb = Inr j \<and> json_file j = Some f \<and>
           file_path e = f \<and> file_name disp = f \<and>
           (file_action_type disp \<noteq> CreateFile \<longrightarrow>
              stored (case rename_map f of None \<Rightarrow> f | Some q \<Rightarrow> q) =
                Some (display_file_lines disp)) \<and>
           (file_action_type disp = CreateFile \<longrightarrow> display_file_lines disp = [])"
proof -
  from dec obtain j dj act st en fa flines f where
    l: "load_json json_loads sb = Inr j" and
    d: "BlockParserDeserializedJson j = Inr dj" and
    s: "snapshot_lines stored rename_map fa (file' dj) = Inr flines" and
    f: "file' dj = Some f" and
    r: "disp = \<lparr>file_name = f, display_file_lines = flines, added_block = [],
                removed_block = py_slice flines (Some st) en,
                file_action_type = fa,
                first_changed_line = st, last_changed_line = en,
                new_name = name dj\<rparr>"
       "file_path e = f"
    by (auto simp: special_block_def split: sum.splits option.splits prod.splits)
  from deserialized_fields [OF d] f have jf: "json_file j = Some f"
    by simp
  from s f have "(fa \<noteq> CreateFile \<longrightarrow>
              stored (case rename_map f of None \<Rightarrow> f | Some q \<Rightarrow> q) = Some flines) \<and>
           (fa = CreateFile \<longrightarrow> flines = [])"
    by (auto simp: snapshot_lines_def split: if_splits option.splits)
  with l jf r show ?thesis
    by (intro exI [of _ j] exI [of _ f]) simp
qed

theorem special_block_paths_witness:
  "\<exists>j f. load_json (json_loads_table headers) renamed_block = Inr j \<and>
         json_file j = Some f \<and> f = ''old.txt'' \<and>
         renamed_stored (case renamed_map f of None \<Rightarrow> f | Some q \<Rightarrow> q) = Some [''bbb'']"
proof -
  have "special_block (json_loads_table headers) renamed_stored renamed_map renamed_block =
     Inr (\<lparr>file_name = ''old.txt'', display_file_lines = [''bbb''], added_block = [],
           removed_block = [], file_action_type = UpdateFile,
           first_changed_line = 1, last_changed_line = Some 1, new_name = None\<rparr>,
          \<lparr>file_path = ''old.txt'', replacements = [], is_creation = False,
           is_deletion = False, rename_file_path = None\<rparr>,
          True)"
    by (simp add: parser_defs parser_example_defs)
  from special_block_paths [OF this] show ?thesis
    by auto
qed

subsection \<open>The code section\<close>

lemma split_lines_line:
  "NL \<notin> set l \<Longrightarrow> split_lines (l @ NL # rest) = l # split_lines rest"
proof (induction l)
  case Nil
  show ?case by simp
next
  case (Cons c l)
  then have "split_lines (l @ NL # rest) = l # split_lines rest" and "c \<noteq> NL"
    by auto
  then show ?case by simp
qed

lemma split_lines_terminated:
  "\<forall>l \<in> set xs. NL \<notin> set l \<Longrightarrow>
     split_lines (concat (map (\<lambda>l. l @ [NL]) xs)) = xs @ [[]]"
  by (induction xs) (simp_all add: split_lines_line)

lemma py_slice_drop_last_two:
  "py_slice (ls @ [m, e]) None (Some (- 2)) = ls"
  by (simp add: py_slice_def py_bound_def)

lemma code_lines_of_text:
  assumes "\<forall>l \<in> set (ls @ [m]). NL \<notin> set l"
  shows "py_slice (split_lines (concat (map (\<lambda>l. l @ [NL]) (ls @ [m])))) None (Some (- 2)) = ls"
proof -
  have "split_lines (concat (map (\<lambda>l. l @ [NL]) (ls @ [m]))) = (ls @ [m]) @ [[]]"
    using assms by (rule split_lines_terminated)
  then show ?thesis
    using py_slice_drop_last_two [of ls m "[]"] by simp
qed

lemma special_block_range:
  assumes "special_block json_loads stored rename_map sb = Inr (disp, e, hc)"
  shows "\<exists>j dj act. load_json json_loads sb = Inr j \<and>
           BlockParserDeserializedJson j = Inr dj \<and> action dj = Some act \<and>
           match_action act dj =
             Inr (first_changed_line disp, last_changed_line disp, file_action_type disp)"
  using assms
  by (auto simp: special_block_def split: sum.splits option.splits prod.splits)

text \<open>
  C9. When the code section of a decoded block is closed, the text handed over holds the
  code lines and the closing marker line, each ended by a newline. The accumulator then
  appends exactly one replacement to the edit and changes nothing else of it: its range is
  the one the \<^verbatim>\<open>match\<close> statement resolved from the header, and its new lines are
  exactly the code lines.
\<close>

theorem add_code_block_appends:
  assumes dec: "special_block json_loads stored rename_map sb = Inr (disp, e, hc)"
    and lines: "\<forall>l \<in> set (ls @ [m]). NL \<notin> set l"
  shows "\<exists>j dj act st en fa.
           load_json json_loads sb = Inr j \<and> BlockParserDeserializedJson j = Inr dj \<and>
           action dj = Some act \<and> match_action act dj = Inr (st, en, fa) \<and>
           add_code_block sb (concat (map (\<lambda>l. l @ [NL]) (ls @ [m]))) disp e =
             e\<lparr>replacements := replacements e @ [Replacement st en ls]\<rparr>"
proof -
  from special_block_range [OF dec] obtain j dj act where
    "load_json json_loads sb = Inr j" "BlockParserDeserializedJson j = Inr dj"
    "action dj = Some act"
    "match_action act dj =
       Inr (first_changed_line disp, last_changed_line disp, file_action_type disp)"
    by blast
  moreover have "add_code_block sb (concat (map (\<lambda>l. l @ [NL]) (ls @ [m]))) disp e =
      e\<lparr>replacements := replacements e @
          [Replacement (first_changed_line disp) (last_changed_line disp) ls]\<rparr>"
    unfolding add_code_block_def code_lines_of_text [OF lines] ..
  ultimately show ?thesis by blast
qed

theorem add_code_block_appends_witness:
  "special_block (json_loads_table headers) (file_lines tracked_state) Map.empty replace_block =
     Inr (\<lparr>file_name = ''f.txt'', display_file_lines = [''aaa'', ''bbb'', ''ccc'', ''ddd''],
           added_block = [], removed_block = [''bbb'', ''ccc''],
           file_action_type = UpdateFile,
           first_changed_line = 1, last_changed_line = Some 3, new_name = None\<rparr>,
          replace_edit\<lparr>replacements := []\<rparr>, True) \<and>
   add_code_block replace_block (''XXX'' @ NL # ''YYY'' @ NL # Indicator_End @ [NL])
       \<lparr>file_name = ''f.txt'', display_file_lines = [''aaa'', ''bbb'', ''ccc'', ''ddd''],
        added_block = [], removed_block = [''bbb'', ''ccc''],
        file_action_type = UpdateFile,
        first_changed_line = 1, last_changed_line = Some 3, new_name = None\<rparr>
       (replace_edit\<lparr>replacements := []\<rparr>) =
     replace_edit\<lparr>replacements := [Replacement 1 (Some 3) [''XXX'', ''YYY'']]\<rparr> \<and>
   get_updated_file_lines
       (replace_edit\<lparr>replacements := [Replacement 1 (Some 3) [''XXX'', ''YYY'']]\<rparr>)
       [''aaa'', ''bbb'', ''ccc'', ''ddd''] = Inr [''aaa'', ''XXX'', ''YYY'', ''ddd'']"
proof -
  let ?disp = "\<lparr>file_name = ''f.txt'', display_file_lines = [''aaa'', ''bbb'', ''ccc'', ''ddd''],
           added_block = [], removed_block = [''bbb'', ''ccc''],
           file_action_type = UpdateFile,
           first_changed_line = 1, last_changed_line = Some 3, new_name = None\<rparr>"
  have dec: "special_block (json_loads_table headers) (file_lines tracked_state) Map.empty
               replace_block = Inr (?disp, replace_edit\<lparr>replacements := []\<rparr>, True)"
    by (simp add: parser_defs parser_example_defs tracked_state_def replace_edit_def)
  have lines: "\<forall>l \<in> set ([''XXX'', ''YYY''] @ [Indicator_End]). NL \<notin> set l"
    by (simp add: Indicator_End_def NL_def)
  have cb: "concat (map (\<lambda>l. l @ [NL]) ([''XXX'', ''YYY''] @ [Indicator_End])) =
             ''XXX'' @ NL # ''YYY'' @ NL # Indicator_End @ [NL]"
    by simp
  have l: "load_json (json_loads_table headers) replace_block = Inr replace_header"
    by (simp add: parser_defs parser_example_defs)
  have d: "BlockParserDeserializedJson replace_header =
             Inr \<lparr>file' = Some ''f.txt'', action = Some Action_Replace, name = None,
                  before_line = None, after_line = None,
                  start_line = Some 2, end_line = Some 3\<rparr>"
    by (simp add: parser_defs parser_example_defs)
  from add_code_block_appends [OF dec lines] obtain j dj act st en fa where
    j: "load_json (json_loads_table headers) replace_block = Inr j" and
    dj: "BlockParserDeserializedJson j = Inr dj" and
    act: "action dj = Some act" and
    m: "match_action act dj = Inr (st, en, fa)" and
    a: "add_code_block replace_block (concat (map (\<lambda>l. l @ [NL])
            ([''XXX'', ''YYY''] @ [Indicator_End]))) ?disp (replace_edit\<lparr>replacements := []\<rparr>) =
          replace_edit\<lparr>replacements := []\<rparr>
            \<lparr>replacements := replacements (replace_edit\<lparr>replacements := []\<rparr>) @
               [Replacement st en [''XXX'', ''YYY'']]\<rparr>"
    by blast
  from j l have "j = replace_header" by simp
  with dj d act m have "st = 1" "en = Some 3"
    by (auto simp: match_action_def)
  with a have A: "add_code_block replace_block (''XXX'' @ NL # ''YYY'' @ NL # Indicator_End @ [NL])
      ?disp (replace_edit\<lparr>replacements := []\<rparr>) =
     replace_edit\<lparr>replacements := [Replacement 1 (Some 3) [''XXX'', ''YYY'']]\<rparr>"
    unfolding cb by simp
  have U: "get_updated_file_lines
       (replace_edit\<lparr>replacements := [Replacement 1 (Some 3) [''XXX'', ''YYY'']]\<rparr>)
       [''aaa'', ''bbb'', ''ccc'', ''ddd''] = Inr [''aaa'', ''XXX'', ''YYY'', ''ddd'']"
    by (simp add: get_updated_file_lines_def py_slice_def py_bound_def)
  from dec A U show ?thesis by blast
qed

end
